theory Spec2Isabelle
  imports Main "HOL-Library.AList"
begin

section \<open>Values, dictionaries, requests\<close>

text \<open>
  A shallow embedding of \<^verbatim>\<open>extendedmodelresource.py\<close>. Python values that travel in
  keyword-argument dictionaries are a datatype; a dictionary is an association list in
  insertion order (\<^verbatim>\<open>items()\<close> order); an exception is a value of \<open>exn\<close>; a method of the
  host framework that the module calls is a logged call whose reply the framework decides.
  A method takes its named parameters (\<^verbatim>\<open>bundle\<close>, \<^verbatim>\<open>request\<close>) and its \<^verbatim>\<open>**kwargs\<close> as separate
  arguments: a dictionary holding a key that is also a named parameter of the method
  called is not among the inputs considered.
\<close>

type_synonym obj = nat

record request =
  req_method :: string
  req_GET :: "(string \<times> string) list option"

record api_bundle =
  bundle_obj :: "obj option"
  bundle_request :: "request option"

subsection \<open>Regular expressions of the URL patterns\<close>

text \<open>
  A pattern is written as text, as the source writes it, and \<open>re_compile\<close> reads the text
  into a syntax tree: \<^verbatim>\<open>\w\<close>, a literal character, a bracketed set of these (a hyphen is
  taken literally before the closing bracket), a star after any of them, and their
  sequence; any other construct is not read (\<open>None\<close>). \<open>fullmatch\<close> decides by derivatives
  whether a whole string matches. The string matched is a list of code points. The class
  \<^verbatim>\<open>\w\<close> is the letters, the digits and the underscore: below 128 these are fixed, above
  they are what the interpreter's character database says (\<open>alnum\<close>, a parameter).
\<close>

type_synonym codepoint = nat

datatype cclass = Word | Chr codepoint

datatype rx = Zero | One | Cls cclass | Brackets "cclass list" | Alt rx rx | Seq rx rx | Star rx

definition ascii_word :: "codepoint \<Rightarrow> bool" where
  "ascii_word c =
     ((48 \<le> c \<and> c \<le> 57) \<or> (65 \<le> c \<and> c \<le> 90) \<or> c = 95 \<or> (97 \<le> c \<and> c \<le> 122))"

definition is_word :: "(codepoint \<Rightarrow> bool) \<Rightarrow> codepoint \<Rightarrow> bool" where
  "is_word alnum c = (if c < 128 then ascii_word c else alnum c)"

fun cclass_matches :: "(codepoint \<Rightarrow> bool) \<Rightarrow> cclass \<Rightarrow> codepoint \<Rightarrow> bool" where
  "cclass_matches alnum Word c = is_word alnum c"
| "cclass_matches alnum (Chr d) c = (c = d)"

fun nullable :: "rx \<Rightarrow> bool" where
  "nullable Zero = False"
| "nullable One = True"
| "nullable (Cls k) = False"
| "nullable (Brackets ks) = False"
| "nullable (Alt r s) = (nullable r \<or> nullable s)"
| "nullable (Seq r s) = (nullable r \<and> nullable s)"
| "nullable (Star r) = True"

fun deriv :: "(codepoint \<Rightarrow> bool) \<Rightarrow> codepoint \<Rightarrow> rx \<Rightarrow> rx" where
  "deriv alnum c Zero = Zero"
| "deriv alnum c One = Zero"
| "deriv alnum c (Cls k) = (if cclass_matches alnum k c then One else Zero)"
| "deriv alnum c (Brackets ks) =
     (if list_ex (\<lambda>k. cclass_matches alnum k c) ks then One else Zero)"
| "deriv alnum c (Alt r s) = Alt (deriv alnum c r) (deriv alnum c s)"
| "deriv alnum c (Seq r s) =
     (if nullable r then Alt (Seq (deriv alnum c r) s) (deriv alnum c s)
      else Seq (deriv alnum c r) s)"
| "deriv alnum c (Star r) = Seq (deriv alnum c r) (Star r)"

definition fullmatch :: "(codepoint \<Rightarrow> bool) \<Rightarrow> rx \<Rightarrow> codepoint list \<Rightarrow> bool" where
  "fullmatch alnum r s = nullable (fold (deriv alnum) s r)"

definition backslash :: char where
  "backslash = CHR 0x5C"

text \<open>
  Reading a pattern: \<open>scan\<close> cuts the text into tokens (its first argument holds the members
  of a bracketed set while inside one), \<open>build\<close> puts a star on the token before it.
\<close>

datatype token = TAtom cclass | TClass "cclass list" | TStar

fun scan :: "cclass list option \<Rightarrow> string \<Rightarrow> token list option" where
  "scan None [] = Some []"
| "scan (Some acc) [] = None"
| "scan None (c # cs) =
     (if c = backslash
      then (case cs of
              [] \<Rightarrow> None
            | d # ds \<Rightarrow> if d = CHR ''w'' then map_option (Cons (TAtom Word)) (scan None ds)
                        else None)
      else if c = CHR ''['' then scan (Some []) cs
      else if c = CHR ''*'' then map_option (Cons TStar) (scan None cs)
      else if c \<in> set ''.^$+?{}()|]'' then None
      else map_option (Cons (TAtom (Chr (of_char c)))) (scan None cs))"
| "scan (Some acc) (c # cs) =
     (if c = CHR '']''
      then (if acc = [] then None else map_option (Cons (TClass (rev acc))) (scan None cs))
      else if c = backslash
      then (case cs of
              [] \<Rightarrow> None
            | d # ds \<Rightarrow> if d = CHR ''w'' then scan (Some (Word # acc)) ds else None)
      else if c = CHR ''-''
      then (case cs of
              [] \<Rightarrow> None
            | d # ds \<Rightarrow> if d = CHR '']'' then scan (Some (Chr (of_char c) # acc)) cs else None)
      else if c = CHR ''^'' \<or> c = CHR ''['' then None
      else scan (Some (Chr (of_char c) # acc)) cs)"

fun token_rx :: "token \<Rightarrow> rx" where
  "token_rx (TAtom k) = Cls k"
| "token_rx (TClass ks) = Brackets ks"
| "token_rx TStar = Zero"

fun build :: "token list \<Rightarrow> rx option" where
  "build [] = Some One"
| "build (TStar # ts) = None"
| "build (t # TStar # ts) = map_option (Seq (Star (token_rx t))) (build ts)"
| "build (t # ts) = map_option (Seq (token_rx t)) (build ts)"

definition re_compile :: "string \<Rightarrow> rx option" where
  "re_compile pattern = (case scan None pattern of None \<Rightarrow> None | Some ts \<Rightarrow> build ts)"

text \<open>The words over an alphabet of strings, and the language a pattern denotes.\<close>

inductive_set star :: "codepoint list set \<Rightarrow> codepoint list set"
  for A :: "codepoint list set" where
  star_nil: "[] \<in> star A"
| star_app: "u \<in> A \<Longrightarrow> v \<in> star A \<Longrightarrow> u @ v \<in> star A"

fun lang :: "(codepoint \<Rightarrow> bool) \<Rightarrow> rx \<Rightarrow> codepoint list set" where
  "lang alnum Zero = {}"
| "lang alnum One = {[]}"
| "lang alnum (Cls k) = {[c] | c. cclass_matches alnum k c}"
| "lang alnum (Brackets ks) = {[c] | c. list_ex (\<lambda>k. cclass_matches alnum k c) ks}"
| "lang alnum (Alt r s) = lang alnum r \<union> lang alnum s"
| "lang alnum (Seq r s) = {u @ v | u v. u \<in> lang alnum r \<and> v \<in> lang alnum s}"
| "lang alnum (Star r) = star (lang alnum r)"

subsection \<open>Resources and the values of keyword arguments\<close>

text \<open>
  \<open>regex_override\<close> is the text that the \<^verbatim>\<open>get_detail_uri_name_regex\<close> of a subclass returns,
  when the class of the resource defines one; \<open>authorization_attrs\<close> are the attribute
  names of \<^verbatim>\<open>_meta.authorization\<close>; a nested field names its resource class by a number.
  Among the values, a related manager has the attributes \<^verbatim>\<open>all\<close> and \<^verbatim>\<open>core_filters\<close>; a
  queryset (or a plain manager) has \<^verbatim>\<open>all\<close> and no \<^verbatim>\<open>core_filters\<close>.
\<close>

datatype attribute = AttrName string | AttrCallable nat | AttrOther

record nested_field =
  nf_attribute :: attribute
  nf_to_class :: nat

record resource =
  res_id :: nat
  resource_name :: string
  api_name :: string
  detail_uri_name :: string
  object_class_name :: string
  nested :: "(string \<times> nested_field) list"
  authorization_attrs :: "string list"
  regex_override :: "string option"

datatype val =
    VNone
  | VStr string
  | VObj obj
  | VBundle api_bundle
  | VResource resource
  | VManager "(string \<times> val) list"
  | VQuerySet nat

type_synonym kwargs = "(string \<times> val) list"

text \<open>
  Responses carry a status and a body; \<open>ImmediateHttpResponse\<close> is the exception by which
  the framework aborts a request with a response of its own (an authorization refusal).
\<close>

datatype response =
    HttpNotFound
  | HttpMultipleChoices string
  | HttpResponse nat string

datatype exn =
    ValueError
  | KeyError
  | AttributeError
  | FormatError
  | Resolver404
  | NotImplementedError string
  | DoesNotExist string
  | MultipleObjectsReturned string
  | NotFound string
  | BadRequest string
  | ImmediateHttpResponse response
  | OtherError nat

subsection \<open>Python dictionary operations\<close>

definition dict_copy :: "(string \<times> 'v) list \<Rightarrow> (string \<times> 'v) list" where
  "dict_copy d = d"

definition dict_contains :: "string \<Rightarrow> (string \<times> 'v) list \<Rightarrow> bool" where
  "dict_contains k d = (k \<in> set (map fst d))"

text \<open>\<^verbatim>\<open>del d[k]\<close>: \<open>None\<close> is the \<^verbatim>\<open>KeyError\<close> of a missing key.\<close>

definition dict_del :: "string \<Rightarrow> (string \<times> 'v) list \<Rightarrow> (string \<times> 'v) list option" where
  "dict_del k d = (if dict_contains k d then Some (AList.delete k d) else None)"

text \<open>\<^verbatim>\<open>d.get(k, None)\<close>.\<close>

definition dict_get :: "string \<Rightarrow> kwargs \<Rightarrow> val" where
  "dict_get k d = (case map_of d k of None \<Rightarrow> VNone | Some v \<Rightarrow> v)"

text \<open>\<^verbatim>\<open>d[k] = v\<close> and \<^verbatim>\<open>d.update(other)\<close>.\<close>

definition dict_set :: "string \<Rightarrow> 'v \<Rightarrow> (string \<times> 'v) list \<Rightarrow> (string \<times> 'v) list" where
  "dict_set k v d = AList.update k v d"

definition dict_update :: "(string \<times> 'v) list \<Rightarrow> (string \<times> 'v) list \<Rightarrow> (string \<times> 'v) list" where
  "dict_update d other = fold (\<lambda>kv. AList.update (fst kv) (snd kv)) other d"

section \<open>Stripping of URL and bookkeeping keys\<close>

definition remove_api_resource_names :: "kwargs \<Rightarrow> kwargs" where
  "remove_api_resource_names url_dict = dict_copy url_dict"

definition stripped_keys :: "string list" where
  "stripped_keys = [''api_name'', ''resource_name'', ''related_manager'',
                    ''child_object'', ''parent_resource'', ''nested_name'',
                    ''parent_object'']"

text \<open>One round of the loop body: \<^verbatim>\<open>try: del(kwargs_subset[key]) except KeyError: pass\<close>.\<close>

definition try_del :: "string \<Rightarrow> kwargs \<Rightarrow> kwargs" where
  "try_del key kwargs_subset =
     (case dict_del key kwargs_subset of None \<Rightarrow> kwargs_subset | Some d \<Rightarrow> d)"

definition real_remove_api_resource_names :: "kwargs \<Rightarrow> kwargs" where
  "real_remove_api_resource_names url_dict = fold try_del stripped_keys (dict_copy url_dict)"

section \<open>The URL builder\<close>

text \<open>\<open>get_detail_uri_name_regex\<close> returns the pattern text \<^verbatim>\<open>\w[\w-]*\<close>.\<close>

definition get_detail_uri_name_regex :: string where
  "get_detail_uri_name_regex = backslash # ''w['' @ backslash # ''w-]*''"

text \<open>\<^verbatim>\<open>self.get_detail_uri_name_regex()\<close>: the method of the subclass where it has one.\<close>

definition self_get_detail_uri_name_regex :: "resource \<Rightarrow> string" where
  "self_get_detail_uri_name_regex self =
     (case regex_override self of None \<Rightarrow> get_detail_uri_name_regex | Some r \<Rightarrow> r)"

record url_pattern =
  url_regex :: string
  url_view :: string
  url_name :: string

text \<open>
  \<open>base_urls\<close>, \<open>nested_urls\<close> and \<open>detail_actions_urlpatterns\<close>; \<open>slash\<close> is what the
  framework's \<^verbatim>\<open>trailing_slash()\<close> returns, \<open>actions\<close> what \<^verbatim>\<open>self.detail_actions()\<close> returns.
\<close>

definition base_urls :: "string \<Rightarrow> resource \<Rightarrow> url_pattern list" where
  "base_urls slash self =
     [\<lparr>url_regex = ''^(?P<resource_name>'' @ resource_name self @ '')'' @ slash @ ''$'',
       url_view = ''dispatch_list'', url_name = ''api_dispatch_list''\<rparr>,
      \<lparr>url_regex = ''^(?P<resource_name>'' @ resource_name self @ '')/schema'' @ slash @ ''$'',
       url_view = ''get_schema'', url_name = ''api_get_schema''\<rparr>,
      \<lparr>url_regex = ''^(?P<resource_name>'' @ resource_name self @ '')/set/(?P<''
                    @ detail_uri_name self @ ''_list>(''
                    @ self_get_detail_uri_name_regex self @ '';?)*)/$'',
       url_view = ''get_multiple'', url_name = ''api_get_multiple''\<rparr>,
      \<lparr>url_regex = ''^(?P<resource_name>'' @ resource_name self @ '')/(?P<''
                    @ detail_uri_name self @ ''>''
                    @ self_get_detail_uri_name_regex self @ '')'' @ slash @ ''$'',
       url_view = ''dispatch_detail'', url_name = ''api_dispatch_detail''\<rparr>]"

definition get_nested_url :: "string \<Rightarrow> resource \<Rightarrow> string \<Rightarrow> url_pattern" where
  "get_nested_url slash self nested_name =
     \<lparr>url_regex = ''^(?P<resource_name>'' @ resource_name self @ '')/(?P<''
                   @ detail_uri_name self @ ''>''
                   @ self_get_detail_uri_name_regex self @ '')/(?P<nested_name>''
                   @ nested_name @ '')'' @ slash @ ''$'',
      url_view = ''dispatch_nested'', url_name = ''api_dispatch_nested''\<rparr>"

definition nested_urls :: "string \<Rightarrow> resource \<Rightarrow> url_pattern list" where
  "nested_urls slash self = map (get_nested_url slash self) (map fst (nested self))"

definition detail_actions_urlpatterns ::
  "string \<Rightarrow> resource \<Rightarrow> url_pattern list \<Rightarrow> (string \<times> url_pattern list) list" where
  "detail_actions_urlpatterns slash self actions =
     (if actions \<noteq> []
      then [(''^(?P<resource_name>'' @ resource_name self @ '')/(?P<''
               @ detail_uri_name self @ ''>''
               @ self_get_detail_uri_name_regex self @ '')'' @ slash,
             actions)]
      else [])"

section \<open>The host framework as a logged oracle\<close>

text \<open>
  Every call the module makes into the framework (the object-relational layer, the
  authorization and cache hooks, the base class's own methods, the bundle lifecycle) is
  appended to a trace. The framework's answer may depend on everything that happened so
  far, the call just made included, so a stateful database or cache is covered.
\<close>

datatype call =
    BuildFilters kwargs
  | ApplyFilters "request option" kwargs
  | QuerysetFilter "obj list" kwargs
  | AuthorizedReadList "obj list" api_bundle
  | GetObjectListFilter "request option" kwargs
  | AuthorizedReadDetail "obj list" api_bundle
  | GenerateCacheKey string kwargs
  | CacheGet string
  | CacheSet string val
  | SuperObjCreate api_bundle kwargs
  | SuperObjUpdate api_bundle bool kwargs
  | SuperObjDeleteList api_bundle kwargs
  | SuperObjDeleteListForUpdate api_bundle kwargs
  | SuperObjDelete api_bundle kwargs
  | ApplyAuthorizationLimits "request option" "obj list"
  | NestedAuthorizationMethod nat string "request option" val "obj list"
  | IsAuthenticated request
  | ThrottleCheck request
  | BuildBundle val "request option"
  | GetAttr val string
  | CallAttribute nat val
  | Dispatch nat string string request kwargs
  | FullDehydrate api_bundle
  | AlterDetailDataToSerialize request api_bundle
  | CreateResponse request api_bundle
  | SuperPostList request kwargs
  | SuperPutList request kwargs
  | SuperPatchList request kwargs
  | GetScriptPrefix
  | Resolve string

type_synonym trace = "call list"

record framework =
  reply_unit :: "trace \<Rightarrow> exn + unit"
  reply_objs :: "trace \<Rightarrow> exn + obj list"
  reply_kwargs :: "trace \<Rightarrow> exn + kwargs"
  reply_val :: "trace \<Rightarrow> exn + val"
  reply_string :: "trace \<Rightarrow> exn + string"
  reply_bundle :: "trace \<Rightarrow> exn + api_bundle"
  reply_response :: "trace \<Rightarrow> exn + response"
  str_of :: "val \<Rightarrow> exn + string"

type_synonym 'a io = "trace \<Rightarrow> (exn + 'a) \<times> trace"

definition io_return :: "'a \<Rightarrow> 'a io" where
  "io_return x t = (Inr x, t)"

definition io_raise :: "exn \<Rightarrow> 'a io" where
  "io_raise e t = (Inl e, t)"

definition io_bind :: "'a io \<Rightarrow> ('a \<Rightarrow> 'b io) \<Rightarrow> 'b io" where
  "io_bind m f t = (case m t of (Inl e, t') \<Rightarrow> (Inl e, t') | (Inr x, t') \<Rightarrow> f x t')"

text \<open>\<^verbatim>\<open>try: m except ...: h\<close>; a handler re-raises what its clauses do not catch.\<close>

definition io_try :: "'a io \<Rightarrow> (exn \<Rightarrow> 'a io) \<Rightarrow> 'a io" where
  "io_try m h t = (case m t of (Inl e, t') \<Rightarrow> h e t' | (Inr x, t') \<Rightarrow> (Inr x, t'))"

text \<open>A computation that touches nothing of the framework, and may raise.\<close>

definition io_pure :: "exn + 'a \<Rightarrow> 'a io" where
  "io_pure r t = (r, t)"

definition io_call :: "call \<Rightarrow> (trace \<Rightarrow> exn + 'a) \<Rightarrow> 'a io" where
  "io_call c reply t = (reply (t @ [c]), t @ [c])"

subsection \<open>The framework's methods the module calls\<close>

definition build_filters :: "framework \<Rightarrow> kwargs \<Rightarrow> kwargs io" where
  "build_filters fw filters = io_call (BuildFilters filters) (reply_kwargs fw)"

definition apply_filters :: "framework \<Rightarrow> request option \<Rightarrow> kwargs \<Rightarrow> obj list io" where
  "apply_filters fw req applicable_filters =
     io_call (ApplyFilters req applicable_filters) (reply_objs fw)"

text \<open>\<^verbatim>\<open>base_object_list.filter(**core_filters)\<close> on a list already filtered.\<close>

definition queryset_filter :: "framework \<Rightarrow> obj list \<Rightarrow> kwargs \<Rightarrow> obj list io" where
  "queryset_filter fw base_object_list core_filters =
     io_call (QuerysetFilter base_object_list core_filters) (reply_objs fw)"

definition authorized_read_list :: "framework \<Rightarrow> obj list \<Rightarrow> api_bundle \<Rightarrow> obj list io" where
  "authorized_read_list fw object_list b = io_call (AuthorizedReadList object_list b) (reply_objs fw)"

text \<open>
  \<^verbatim>\<open>self.get_object_list(request).filter(**kw)\<close>, evaluated: the rows that match, or the
  exception the lookup raises (a \<^verbatim>\<open>ValueError\<close> for a value of the wrong type).
\<close>

definition get_object_list_filter :: "framework \<Rightarrow> request option \<Rightarrow> kwargs \<Rightarrow> obj list io" where
  "get_object_list_filter fw req kw = io_call (GetObjectListFilter req kw) (reply_objs fw)"

definition authorized_read_detail :: "framework \<Rightarrow> obj list \<Rightarrow> api_bundle \<Rightarrow> unit io" where
  "authorized_read_detail fw object_list b =
     io_call (AuthorizedReadDetail object_list b) (reply_unit fw)"

definition generate_cache_key :: "framework \<Rightarrow> string \<Rightarrow> kwargs \<Rightarrow> string io" where
  "generate_cache_key fw kind kw = io_call (GenerateCacheKey kind kw) (reply_string fw)"

text \<open>\<^verbatim>\<open>self._meta.cache.get(key)\<close>: \<open>VNone\<close> is a miss.\<close>

definition cache_get :: "framework \<Rightarrow> string \<Rightarrow> val io" where
  "cache_get fw cache_key = io_call (CacheGet cache_key) (reply_val fw)"

definition cache_set :: "framework \<Rightarrow> string \<Rightarrow> val \<Rightarrow> unit io" where
  "cache_set fw cache_key v = io_call (CacheSet cache_key v) (reply_unit fw)"






definition apply_authorization_limits :: "framework \<Rightarrow> request option \<Rightarrow> obj list \<Rightarrow> obj list io" where
  "apply_authorization_limits fw req object_list =
     io_call (ApplyAuthorizationLimits req object_list) (reply_objs fw)"

text \<open>The call of a method found by name on a parent resource's authorization object.\<close>

definition nested_authorization_method ::
  "framework \<Rightarrow> resource \<Rightarrow> string \<Rightarrow> request option \<Rightarrow> val \<Rightarrow> obj list \<Rightarrow> obj list io" where
  "nested_authorization_method fw parent method_name req parent_object object_list =
     io_call (NestedAuthorizationMethod (res_id parent) method_name req parent_object object_list)
       (reply_objs fw)"

text \<open>
  \<^verbatim>\<open>'...{0}'.format(v)\<close>: a string is itself, \<^verbatim>\<open>None\<close> prints as \<^verbatim>\<open>None\<close>, any other
  object prints as its own \<^verbatim>\<open>__str__\<close> says, or raises what that raises (\<open>str_of\<close>, a
  function of the value that leaves no call in the trace).
\<close>

definition format_val :: "framework \<Rightarrow> val \<Rightarrow> exn + string" where
  "format_val fw v =
     (case v of VStr s \<Rightarrow> Inr s
      | VNone \<Rightarrow> Inr ''None''
      | _ \<Rightarrow> str_of fw v)"

definition is_authenticated :: "framework \<Rightarrow> request \<Rightarrow> unit io" where
  "is_authenticated fw req = io_call (IsAuthenticated req) (reply_unit fw)"

definition throttle_check :: "framework \<Rightarrow> request \<Rightarrow> unit io" where
  "throttle_check fw req = io_call (ThrottleCheck req) (reply_unit fw)"

definition build_bundle :: "framework \<Rightarrow> val \<Rightarrow> request option \<Rightarrow> api_bundle io" where
  "build_bundle fw ob req = io_call (BuildBundle ob req) (reply_bundle fw)"

text \<open>\<^verbatim>\<open>getattr(obj, name, None)\<close> and the call of a callable field attribute.\<close>

definition getattr_default_none :: "framework \<Rightarrow> val \<Rightarrow> string \<Rightarrow> val io" where
  "getattr_default_none fw ob name = io_call (GetAttr ob name) (reply_val fw)"

definition call_attribute :: "framework \<Rightarrow> nat \<Rightarrow> val \<Rightarrow> val io" where
  "call_attribute fw f ob = io_call (CallAttribute f ob) (reply_val fw)"

text \<open>
  \<^verbatim>\<open>nested_resource.dispatch(dispatch_type, request, **kwargs)\<close> on the instance made by
  \<^verbatim>\<open>to_class()\<close>, after its \<^verbatim>\<open>_meta.api_name\<close> has been set.
\<close>

definition dispatch :: "framework \<Rightarrow> nat \<Rightarrow> string \<Rightarrow> string \<Rightarrow> request \<Rightarrow> kwargs \<Rightarrow> response io" where
  "dispatch fw nested_resource api dispatch_type req kw =
     io_call (Dispatch nested_resource api dispatch_type req kw) (reply_response fw)"

definition full_dehydrate :: "framework \<Rightarrow> api_bundle \<Rightarrow> api_bundle io" where
  "full_dehydrate fw b = io_call (FullDehydrate b) (reply_bundle fw)"

definition alter_detail_data_to_serialize :: "framework \<Rightarrow> request \<Rightarrow> api_bundle \<Rightarrow> api_bundle io" where
  "alter_detail_data_to_serialize fw req b =
     io_call (AlterDetailDataToSerialize req b) (reply_bundle fw)"

definition create_response :: "framework \<Rightarrow> request \<Rightarrow> api_bundle \<Rightarrow> response io" where
  "create_response fw req b = io_call (CreateResponse req b) (reply_response fw)"

definition super_post_list :: "framework \<Rightarrow> request \<Rightarrow> kwargs \<Rightarrow> response io" where
  "super_post_list fw req kw = io_call (SuperPostList req kw) (reply_response fw)"

definition super_put_list :: "framework \<Rightarrow> request \<Rightarrow> kwargs \<Rightarrow> response io" where
  "super_put_list fw req kw = io_call (SuperPutList req kw) (reply_response fw)"

definition super_patch_list :: "framework \<Rightarrow> request \<Rightarrow> kwargs \<Rightarrow> response io" where
  "super_patch_list fw req kw = io_call (SuperPatchList req kw) (reply_response fw)"

definition get_script_prefix :: "framework \<Rightarrow> string io" where
  "get_script_prefix fw = io_call GetScriptPrefix (reply_string fw)"

definition resolve :: "framework \<Rightarrow> string \<Rightarrow> kwargs io" where
  "resolve fw path = io_call (Resolve path) (reply_kwargs fw)"

section \<open>The methods of ExtendedModelResource\<close>

definition mismatched_type :: string where
  "mismatched_type = ''Invalid resource lookup data provided (mismatched type).''"

text \<open>
  \<^verbatim>\<open>', '.join(["{0}={1}".format(k, v) for k, v in kwargs.items()])\<close>: the keyword
  arguments, as received, are printed one after the other, and the first value that
  cannot be printed raises. The messages of the two lookup exceptions hold the result.
\<close>

definition quote :: char where
  "quote = CHR 0x27"

fun join_with :: "string \<Rightarrow> string list \<Rightarrow> string" where
  "join_with sep [] = []"
| "join_with sep [x] = x"
| "join_with sep (x # y # ys) = x @ sep @ join_with sep (y # ys)"

fun format_items :: "framework \<Rightarrow> kwargs \<Rightarrow> exn + string list" where
  "format_items fw [] = Inr []"
| "format_items fw (kv # rest) =
     (case format_val fw (snd kv) of
        Inl e \<Rightarrow> Inl e
      | Inr s \<Rightarrow> (case format_items fw rest of
                    Inl e \<Rightarrow> Inl e
                  | Inr ss \<Rightarrow> Inr ((fst kv @ ''='' @ s) # ss)))"

definition stringified_kwargs :: "framework \<Rightarrow> kwargs \<Rightarrow> exn + string" where
  "stringified_kwargs fw kwargs =
     (case format_items fw kwargs of Inl e \<Rightarrow> Inl e | Inr ss \<Rightarrow> Inr (join_with '', '' ss))"

definition does_not_exist_message :: "resource \<Rightarrow> string \<Rightarrow> string" where
  "does_not_exist_message self stringified =
     ''Couldn'' @ [quote] @ ''t find an instance of '' @ [quote] @ object_class_name self
       @ [quote] @ '' which matched '' @ [quote] @ stringified @ [quote] @ ''.''"

definition multiple_objects_message :: "resource \<Rightarrow> string \<Rightarrow> string" where
  "multiple_objects_message self stringified =
     ''More than '' @ [quote] @ object_class_name self @ [quote] @ '' matched '' @ [quote]
       @ stringified @ [quote] @ ''.''"

text \<open>
  \<^verbatim>\<open>raise http.BadRequest(...)\<close>: the name is looked up in the module \<^verbatim>\<open>tastypie.http\<close>,
  which this file imports as \<^verbatim>\<open>http\<close>. Modelled from the framework: the module holds
  Django's \<^verbatim>\<open>HttpResponse\<close> and the response classes below; the exception \<^verbatim>\<open>BadRequest\<close>
  lives in \<^verbatim>\<open>tastypie.exceptions\<close>, from which this file imports \<^verbatim>\<open>NotFound\<close> alone. A
  name the module lacks raises \<^verbatim>\<open>AttributeError\<close> in place of the exception meant.
\<close>

definition http_names :: "string list" where
  "http_names =
     [''HttpResponse'', ''HttpCreated'', ''HttpAccepted'', ''HttpNoContent'',
      ''HttpMultipleChoices'', ''HttpSeeOther'', ''HttpNotModified'', ''HttpBadRequest'',
      ''HttpUnauthorized'', ''HttpForbidden'', ''HttpNotFound'', ''HttpMethodNotAllowed'',
      ''HttpConflict'', ''HttpGone'', ''HttpUnprocessableEntity'', ''HttpTooManyRequests'',
      ''HttpApplicationError'', ''HttpNotImplemented'']"

definition raise_http_BadRequest :: "string \<Rightarrow> 'a io" where
  "raise_http_BadRequest message =
     (if ''BadRequest'' \<in> set http_names then io_raise (BadRequest message)
      else io_raise AttributeError)"

text \<open>
  \<open>obj_get_list\<close>. The filters start from a copy of the request's \<^verbatim>\<open>GET\<close> when the request
  has one (of the values a query parameter has, the one \<^verbatim>\<open>filters[k]\<close> returns is kept);
  \<^verbatim>\<open>build_filters\<close> runs before the \<^verbatim>\<open>try\<close>.
\<close>

definition request_filters :: "api_bundle \<Rightarrow> kwargs" where
  "request_filters b =
     (case bundle_request b of
        None \<Rightarrow> []
      | Some r \<Rightarrow> (case req_GET r of
                    None \<Rightarrow> []
                  | Some g \<Rightarrow> dict_copy (map (\<lambda>kv. (fst kv, VStr (snd kv))) g)))"

definition obj_get_list :: "framework \<Rightarrow> resource \<Rightarrow> api_bundle \<Rightarrow> kwargs \<Rightarrow> obj list io" where
  "obj_get_list fw self b kwargs =
     (let filters = dict_update (request_filters b) (real_remove_api_resource_names kwargs) in
      io_bind (build_filters fw filters) (\<lambda>applicable_filters.
        io_try
          (io_bind (apply_filters fw (bundle_request b) applicable_filters) (\<lambda>base_object_list.
           io_bind
             (case map_of kwargs ''related_manager'' of
                None \<Rightarrow> io_return base_object_list
              | Some (VManager core_filters) \<Rightarrow> queryset_filter fw base_object_list core_filters
              | Some _ \<Rightarrow> io_raise AttributeError)
             (\<lambda>base_object_list. authorized_read_list fw base_object_list b)))
          (\<lambda>e. if e = ValueError then raise_http_BadRequest mismatched_type else io_raise e)))"

text \<open>
  \<open>obj_get\<close>. Inside the \<^verbatim>\<open>try\<close>: the filter call (it stands for the queryset evaluated,
  since \<^verbatim>\<open>len\<close> evaluates it at once), then the printing of every keyword argument, then
  the test of the length. The object found is stored in the bundle before the
  authorization check.
\<close>

definition obj_get :: "framework \<Rightarrow> resource \<Rightarrow> api_bundle \<Rightarrow> kwargs \<Rightarrow> obj io" where
  "obj_get fw self b kwargs =
     io_try
       (io_bind
          (get_object_list_filter fw (bundle_request b) (real_remove_api_resource_names kwargs))
          (\<lambda>base_object_list.
           io_bind (io_pure (stringified_kwargs fw kwargs)) (\<lambda>stringified.
             if length base_object_list \<le> 0
             then io_raise (DoesNotExist (does_not_exist_message self stringified))
             else if length base_object_list > 1
             then io_raise (MultipleObjectsReturned (multiple_objects_message self stringified))
             else io_bind
                    (authorized_read_detail fw base_object_list
                       (b\<lparr>bundle_obj := Some (base_object_list ! 0)\<rparr>))
                    (\<lambda>_. io_return (base_object_list ! 0)))))
       (\<lambda>e. if e = ValueError then io_raise (NotFound mismatched_type) else io_raise e)"

text \<open>
  \<open>cached_obj_get\<close>. On a miss the name \<^verbatim>\<open>bundle\<close> is rebound to what \<open>obj_get\<close> returns;
  the method returns whatever \<^verbatim>\<open>bundle\<close> names at the end.
\<close>

definition cached_obj_get :: "framework \<Rightarrow> resource \<Rightarrow> api_bundle \<Rightarrow> kwargs \<Rightarrow> val io" where
  "cached_obj_get fw self b kwargs =
     io_bind (generate_cache_key fw ''detail'' (real_remove_api_resource_names kwargs))
       (\<lambda>cache_key.
     io_bind (cache_get fw cache_key) (\<lambda>cached_bundle.
       if cached_bundle = VNone
       then io_bind (obj_get fw self b kwargs) (\<lambda>found.
            io_bind (cache_set fw cache_key (VObj found)) (\<lambda>_. io_return (VObj found)))
       else io_return (VBundle b)))"






definition obj_get_no_auth_check :: "framework \<Rightarrow> resource \<Rightarrow> request option \<Rightarrow> kwargs \<Rightarrow> obj io" where
  "obj_get_no_auth_check fw self req kwargs =
     io_try
       (io_bind (get_object_list_filter fw req kwargs) (\<lambda>object_list.
        io_bind (io_pure (stringified_kwargs fw kwargs)) (\<lambda>stringified.
          if length object_list \<le> 0
          then io_raise (DoesNotExist (does_not_exist_message self stringified))
          else if length object_list > 1
          then io_raise (MultipleObjectsReturned (multiple_objects_message self stringified))
          else io_return (object_list ! 0))))
       (\<lambda>e. if e = ValueError then io_raise (NotFound mismatched_type) else io_raise e)"

text \<open>
  \<open>get_via_uri_resolver\<close>: the script prefix is chomped but for its last character, and a
  \<^verbatim>\<open>Resolver404\<close> becomes \<^verbatim>\<open>NotFound\<close>.
\<close>

definition get_via_uri_resolver :: "framework \<Rightarrow> string \<Rightarrow> kwargs io" where
  "get_via_uri_resolver fw uri =
     io_bind (get_script_prefix fw) (\<lambda>prefix.
       let chomped_uri =
             (if prefix \<noteq> [] \<and> take (length prefix) uri = prefix
              then drop (length prefix - 1) uri else uri)
       in io_try (resolve fw chomped_uri)
            (\<lambda>e. if e = Resolver404
                 then io_raise (NotFound (''The URL provided '' @ [quote] @ uri @ [quote]
                                          @ '' was not a link to a valid resource.''))
                 else io_raise e))"

definition get_via_uri_no_auth_check :: "framework \<Rightarrow> resource \<Rightarrow> string \<Rightarrow> request option \<Rightarrow> obj io" where
  "get_via_uri_no_auth_check fw self uri req =
     io_bind (get_via_uri_resolver fw uri) (\<lambda>kwargs.
       obj_get_no_auth_check fw self req (remove_api_resource_names kwargs))"

text \<open>
  \<open>apply_nested_authorization_limits\<close>: \<^verbatim>\<open>hasattr\<close> on the parent's authorization object
  is membership in its attribute names; a value that is no resource has no \<^verbatim>\<open>_meta\<close>.
\<close>

definition apply_nested_authorization_limits ::
  "framework \<Rightarrow> resource \<Rightarrow> request option \<Rightarrow> obj list \<Rightarrow> val \<Rightarrow> val \<Rightarrow> val \<Rightarrow> obj list io" where
  "apply_nested_authorization_limits fw self req object_list parent_resource parent_object nested_name =
     io_bind (io_pure (format_val fw nested_name)) (\<lambda>name.
       let method_name = ''apply_limits_nested_'' @ name in
       case parent_resource of
         VResource parent \<Rightarrow>
           if method_name \<in> set (authorization_attrs parent)
           then nested_authorization_method fw parent method_name req parent_object object_list
           else io_return object_list
       | _ \<Rightarrow> io_raise AttributeError)"

definition apply_proper_authorization_limits ::
  "framework \<Rightarrow> resource \<Rightarrow> request option \<Rightarrow> obj list \<Rightarrow> kwargs \<Rightarrow> obj list io" where
  "apply_proper_authorization_limits fw self req object_list kwargs =
     (let parent_resource = dict_get ''parent_resource'' kwargs in
      if parent_resource = VNone
      then apply_authorization_limits fw req object_list
      else apply_nested_authorization_limits fw self req object_list parent_resource
             (dict_get ''parent_object'' kwargs) (dict_get ''nested_name'' kwargs))"

text \<open>\<^verbatim>\<open>hasattr(manager, 'all')\<close>: a related manager has it, and so has a queryset.\<close>

definition has_all :: "val \<Rightarrow> bool" where
  "has_all v = (case v of VManager _ \<Rightarrow> True | VQuerySet _ \<Rightarrow> True | _ \<Rightarrow> False)"

text \<open>
  The parent lookup of \<open>dispatch_nested\<close> and of \<open>get_detail\<close>: the \<^verbatim>\<open>try\<close> block ends in a
  response (\<open>Inl\<close>, returned at once) or in the object found (\<open>Inr\<close>).
\<close>

definition parent_lookup :: "framework \<Rightarrow> resource \<Rightarrow> api_bundle \<Rightarrow> kwargs \<Rightarrow> (response + val) io" where
  "parent_lookup fw self basic_bundle kwargs =
     io_try
       (io_bind (cached_obj_get fw self basic_bundle (remove_api_resource_names kwargs))
          (\<lambda>found. io_return (Inr found)))
       (\<lambda>e. case e of
               DoesNotExist _ \<Rightarrow> io_return (Inl HttpNotFound)
             | MultipleObjectsReturned _ \<Rightarrow>
                 io_return (Inl (HttpMultipleChoices
                                   ''More than one parent resource is found at this URI.''))
             | _ \<Rightarrow> io_raise e)"

text \<open>
  The relation of a nested field on the parent object. The third branch formats its
  message with \<^verbatim>\<open>{0:r}\<close>, which no object accepts as a format specification, so the
  \<^verbatim>\<open>ApiFieldError\<close> is never built; \<^verbatim>\<open>ObjectDoesNotExist\<close> leaves the manager \<^verbatim>\<open>None\<close>.
\<close>

definition nested_manager :: "framework \<Rightarrow> nested_field \<Rightarrow> val \<Rightarrow> val io" where
  "nested_manager fw nested_field ob =
     io_try
       (case nf_attribute nested_field of
          AttrName name \<Rightarrow> getattr_default_none fw ob name
        | AttrCallable f \<Rightarrow> call_attribute fw f ob
        | AttrOther \<Rightarrow> io_raise FormatError)
       (\<lambda>e. case e of DoesNotExist _ \<Rightarrow> io_return VNone | _ \<Rightarrow> io_raise e)"

definition nested_kwargs :: "resource \<Rightarrow> val \<Rightarrow> val \<Rightarrow> val \<Rightarrow> kwargs \<Rightarrow> string \<times> kwargs" where
  "nested_kwargs self nested_name ob manager kwargs0 =
     (let kwargs = dict_set ''nested_name'' nested_name kwargs0;
          kwargs = dict_set ''parent_resource'' (VResource self) kwargs;
          kwargs = dict_set ''parent_object'' ob kwargs
      in if manager = VNone \<or> \<not> has_all manager
         then (''detail'', dict_set ''child_object'' manager kwargs)
         else (let kwargs = dict_set ''related_manager'' manager kwargs
               in (''list'',
                   if dict_contains (detail_uri_name self) kwargs
                   then AList.delete (detail_uri_name self) kwargs else kwargs)))"

definition dispatch_nested :: "framework \<Rightarrow> resource \<Rightarrow> request \<Rightarrow> kwargs \<Rightarrow> response io" where
  "dispatch_nested fw self req kwargs0 =
     io_bind (is_authenticated fw req) (\<lambda>_.
     io_bind (throttle_check fw req) (\<lambda>_.
       case map_of kwargs0 ''nested_name'' of
         None \<Rightarrow> io_raise KeyError
       | Some nested_name \<Rightarrow>
           (let kwargs = AList.delete ''nested_name'' kwargs0 in
            case (case nested_name of VStr n \<Rightarrow> map_of (nested self) n | _ \<Rightarrow> None) of
              None \<Rightarrow> io_raise KeyError
            | Some nested_field \<Rightarrow>
                io_bind (build_bundle fw VNone (Some req)) (\<lambda>basic_bundle.
                io_bind (parent_lookup fw self basic_bundle kwargs) (\<lambda>r.
                  case r of
                    Inl resp \<Rightarrow> io_return resp
                  | Inr ob \<Rightarrow>
                      io_bind (nested_manager fw nested_field ob) (\<lambda>manager.
                        let (dispatch_type, kwargs) = nested_kwargs self nested_name ob manager kwargs
                        in dispatch fw (nf_to_class nested_field) (api_name self)
                             dispatch_type req kwargs))))))"

definition detail_lookup :: "framework \<Rightarrow> resource \<Rightarrow> api_bundle \<Rightarrow> kwargs \<Rightarrow> (response + val) io" where
  "detail_lookup fw self basic_bundle kwargs =
     io_try
       (case map_of kwargs ''child_object'' of
          Some ob \<Rightarrow> (if ob = VNone then io_return (Inl HttpNotFound) else io_return (Inr ob))
        | None \<Rightarrow>
            io_bind (cached_obj_get fw self basic_bundle (remove_api_resource_names kwargs))
              (\<lambda>found. io_return (Inr found)))
       (\<lambda>e. case e of
               AttributeError \<Rightarrow> io_return (Inl HttpNotFound)
             | DoesNotExist _ \<Rightarrow> io_return (Inl HttpNotFound)
             | MultipleObjectsReturned _ \<Rightarrow>
                 io_return (Inl (HttpMultipleChoices ''More than one resource is found at this URI.''))
             | _ \<Rightarrow> io_raise e)"

definition serialize_detail :: "framework \<Rightarrow> request \<Rightarrow> val \<Rightarrow> response io" where
  "serialize_detail fw req ob =
     io_bind (build_bundle fw ob (Some req)) (\<lambda>b.
     io_bind (full_dehydrate fw b) (\<lambda>b.
     io_bind (alter_detail_data_to_serialize fw req b) (\<lambda>b.
       create_response fw req b)))"

definition get_detail :: "framework \<Rightarrow> resource \<Rightarrow> request \<Rightarrow> kwargs \<Rightarrow> response io" where
  "get_detail fw self req kwargs =
     io_bind (build_bundle fw VNone (Some req)) (\<lambda>basic_bundle.
     io_bind (detail_lookup fw self basic_bundle kwargs) (\<lambda>r.
       case r of
         Inl resp \<Rightarrow> io_return resp
       | Inr ob \<Rightarrow> serialize_detail fw req ob))"

definition post_list :: "framework \<Rightarrow> resource \<Rightarrow> request \<Rightarrow> kwargs \<Rightarrow> response io" where
  "post_list fw self req kwargs =
     (if dict_contains ''parent_resource'' kwargs
      then io_raise (NotImplementedError ''You cannot post a list on a nested resource.'')
      else super_post_list fw req kwargs)"

definition put_list :: "framework \<Rightarrow> resource \<Rightarrow> request \<Rightarrow> kwargs \<Rightarrow> response io" where
  "put_list fw self req kwargs =
     (if dict_contains ''parent_resource'' kwargs
      then io_raise (NotImplementedError ''You cannot put a list on a nested resource.'')
      else super_put_list fw req kwargs)"

definition patch_list :: "framework \<Rightarrow> resource \<Rightarrow> request \<Rightarrow> kwargs \<Rightarrow> response io" where
  "patch_list fw self req kwargs =
     (if dict_contains ''parent_resource'' kwargs
      then io_raise (NotImplementedError ''You cannot patch a list on a nested resource.'')
      else super_patch_list fw req kwargs)"

section \<open>What the framework is handed, and a sample deployment\<close>

text \<open>
  The keyword dictionaries a call hands to the query layer, to the cache-key generator or
  to a method of the base class. \<open>ApplyFilters\<close> is left out: it receives what
  \<open>build_filters\<close> returned; \<open>QuerysetFilter\<close> receives a manager's core filters.
\<close>

definition handed_kwargs :: "call \<Rightarrow> kwargs list" where
  "handed_kwargs c =
     (case c of
        GetObjectListFilter _ kw \<Rightarrow> [kw]
      | BuildFilters kw \<Rightarrow> [kw]
      | GenerateCacheKey _ kw \<Rightarrow> [kw]
      | SuperObjCreate _ kw \<Rightarrow> [kw]
      | SuperObjUpdate _ _ kw \<Rightarrow> [kw]
      | SuperObjDeleteList _ kw \<Rightarrow> [kw]
      | SuperObjDeleteListForUpdate _ kw \<Rightarrow> [kw]
      | SuperObjDelete _ kw \<Rightarrow> [kw]
      | _ \<Rightarrow> [])"

text \<open>The dictionaries handed over by the calls that \<open>m\<close> adds to the trace \<open>t\<close>.\<close>

definition handed_over :: "'a io \<Rightarrow> trace \<Rightarrow> kwargs list" where
  "handed_over m t = concat (map handed_kwargs (drop (length t) (snd (m t))))"

text \<open>
  A sample deployment: a user resource with a nested relation \<open>entries\<close>, and a framework
  whose database holds the objects 7 and 8, whose cache always misses and whose
  \<open>build_filters\<close> returns its argument.
\<close>

definition user_resource :: resource where
  "user_resource =
     \<lparr>res_id = 1, resource_name = ''user'', api_name = ''v1'', detail_uri_name = ''pk'',
      object_class_name = ''User'',
      nested = [(''entries'', \<lparr>nf_attribute = AttrName ''entry_set'', nf_to_class = 2\<rparr>)],
      authorization_attrs = [''read_list'', ''read_detail''],
      regex_override = None\<rparr>"

definition get_request :: request where
  "get_request = \<lparr>req_method = ''GET'', req_GET = Some [(''limit'', ''20'')]\<rparr>"

definition basic_bundle :: api_bundle where
  "basic_bundle = \<lparr>bundle_obj = None, bundle_request = Some get_request\<rparr>"

definition sample_framework :: framework where
  "sample_framework =
     \<lparr>reply_unit = (\<lambda>t. Inr ()),
      reply_objs = (\<lambda>t. case last t of
                           GetObjectListFilter _ kw \<Rightarrow>
                             (if map_of kw ''pk'' = Some (VStr ''7'') then Inr [7]
                              else if map_of kw ''pk'' = Some (VStr ''x'') then Inl ValueError
                              else if map_of kw ''pk'' = None then Inr [7, 8]
                              else Inr [])
                         | ApplyFilters _ _ \<Rightarrow> Inr [7, 8]
                         | QuerysetFilter objs _ \<Rightarrow> Inr (filter (\<lambda>ob. ob = 8) objs)
                         | AuthorizedReadList objs _ \<Rightarrow> Inr objs
                         | ApplyAuthorizationLimits _ _ \<Rightarrow> Inr []
                         | NestedAuthorizationMethod _ _ _ _ objs \<Rightarrow> Inr (filter (\<lambda>ob. ob = 7) objs)
                         | _ \<Rightarrow> Inr []),
      reply_kwargs = (\<lambda>t. case last t of
                             BuildFilters f \<Rightarrow> Inr f
                           | Resolve _ \<Rightarrow> Inr [(''api_name'', VStr ''v1''),
                                                  (''resource_name'', VStr ''user''),
                                                  (''pk'', VStr ''7'')]
                           | _ \<Rightarrow> Inr []),
      reply_val = (\<lambda>t. case last t of
                          GetAttr _ _ \<Rightarrow> Inr (VManager [(''user'', VObj 7)])
                        | _ \<Rightarrow> Inr VNone),
      reply_string = (\<lambda>t. case last t of GetScriptPrefix \<Rightarrow> Inr ''/'' | _ \<Rightarrow> Inr ''v1:user:detail:pk=7''),
      reply_bundle = (\<lambda>t. case last t of
                             BuildBundle (VObj ob) r \<Rightarrow> Inr \<lparr>bundle_obj = Some ob, bundle_request = r\<rparr>
                           | BuildBundle _ r \<Rightarrow> Inr \<lparr>bundle_obj = None, bundle_request = r\<rparr>
                           | FullDehydrate b \<Rightarrow> Inr b
                           | AlterDetailDataToSerialize _ b \<Rightarrow> Inr b
                           | _ \<Rightarrow> Inr \<lparr>bundle_obj = None, bundle_request = None\<rparr>),
      reply_response = (\<lambda>t. Inr (HttpResponse 200 ''ok'')),
      str_of = (\<lambda>v. Inr ''object'')\<rparr>"

definition nested_call_kwargs :: kwargs where
  "nested_call_kwargs =
     [(''api_name'', VStr ''v1''), (''pk'', VStr ''7''),
      (''parent_resource'', VResource user_resource), (''nested_name'', VStr ''entries''),
      (''parent_object'', VObj 3)]"

text \<open>
  Variants: a cache that holds object 7 under every key, an authorization that refuses
  every detail read, and a parent whose authorization has the hook for \<open>entries\<close>.
\<close>

definition hit_framework :: framework where
  "hit_framework =
     sample_framework\<lparr>reply_val := (\<lambda>t. case last t of CacheGet _ \<Rightarrow> Inr (VObj 7) | _ \<Rightarrow> Inr VNone)\<rparr>"

definition deny_framework :: framework where
  "deny_framework =
     sample_framework\<lparr>reply_unit :=
        (\<lambda>t. case last t of
                AuthorizedReadDetail _ _ \<Rightarrow> Inl (ImmediateHttpResponse (HttpResponse 401 []))
              | _ \<Rightarrow> Inr ())\<rparr>"

definition hook_resource :: resource where
  "hook_resource = user_resource\<lparr>authorization_attrs := [''apply_limits_nested_entries'']\<rparr>"

definition hook_call_kwargs :: kwargs where
  "hook_call_kwargs =
     [(''parent_resource'', VResource hook_resource), (''nested_name'', VStr ''entries''),
      (''parent_object'', VObj 3)]"

text \<open>A framework whose \<open>apply_filters\<close> meets a value of the wrong type.\<close>

definition value_error_framework :: framework where
  "value_error_framework =
     sample_framework\<lparr>reply_objs := (\<lambda>t. case last t of ApplyFilters _ _ \<Rightarrow> Inl ValueError
                                               | _ \<Rightarrow> Inr [])\<rparr>"

text \<open>
  A deployment whose database holds the single user 7, a resource whose URL keyword for the
  parent is itself called \<open>related_manager\<close>, and the entry resource behind \<open>entries\<close>.
\<close>

definition single_user_framework :: framework where
  "single_user_framework =
     sample_framework\<lparr>reply_objs :=
        (\<lambda>t. case last t of
                GetObjectListFilter _ _ \<Rightarrow> Inr [7]
              | ApplyFilters _ _ \<Rightarrow> Inr [7, 8]
              | QuerysetFilter objs _ \<Rightarrow> Inr (filter (\<lambda>ob. ob = 8) objs)
              | AuthorizedReadList objs _ \<Rightarrow> Inr objs
              | _ \<Rightarrow> Inr [])\<rparr>"

definition odd_resource :: resource where
  "odd_resource = user_resource\<lparr>detail_uri_name := ''related_manager''\<rparr>"

definition entry_resource :: resource where
  "entry_resource =
     \<lparr>res_id = 2, resource_name = ''entry'', api_name = ''v1'', detail_uri_name = ''pk'',
      object_class_name = ''Entry'', nested = [], authorization_attrs = [],
      regex_override = None\<rparr>"

definition entries_manager :: val where
  "entries_manager = VManager [(''user'', VObj 7)]"

definition nested_list_kwargs :: kwargs where
  "nested_list_kwargs =
     [(''nested_name'', VStr ''entries''), (''parent_resource'', VResource user_resource),
      (''parent_object'', VObj 7), (''related_manager'', entries_manager)]"

definition odd_list_kwargs :: kwargs where
  "odd_list_kwargs =
     [(''nested_name'', VStr ''entries''), (''parent_resource'', VResource odd_resource),
      (''parent_object'', VObj 7)]"

text \<open>
  The tree that \<open>re_compile\<close> reads from the default pattern (45 is the hyphen), two
  character databases (one without any letter above 127, one with the letters of Latin-1),
  and a resource whose class overrides the pattern.
\<close>

definition detail_uri_name_tree :: rx where
  "detail_uri_name_tree = Seq (Cls Word) (Seq (Star (Brackets [Word, Chr 45])) One)"

definition no_letters :: "codepoint \<Rightarrow> bool" where
  "no_letters c = False"

definition latin1_letters :: "codepoint \<Rightarrow> bool" where
  "latin1_letters c = (192 \<le> c \<and> c \<le> 255 \<and> c \<noteq> 215 \<and> c \<noteq> 247)"

definition digits_resource :: resource where
  "digits_resource = user_resource\<lparr>regex_override := Some ''[0-9]*''\<rparr>"

text \<open>A deployment where printing a model object raises.\<close>

definition unprintable_framework :: framework where
  "unprintable_framework = sample_framework\<lparr>str_of := (\<lambda>v. Inl (OtherError 1))\<rparr>"

text \<open>
  A deployment whose user resource declares the nested relation \<open>recent\<close> by a callable,
  and the callable returns a queryset.
\<close>

definition queryset_resource :: resource where
  "queryset_resource =
     user_resource\<lparr>nested := [(''recent'', \<lparr>nf_attribute = AttrCallable 3, nf_to_class = 2\<rparr>)]\<rparr>"

definition queryset_framework :: framework where
  "queryset_framework =
     sample_framework\<lparr>reply_val :=
        (\<lambda>t. case last t of CallAttribute _ _ \<Rightarrow> Inr (VQuerySet 4) | _ \<Rightarrow> Inr VNone)\<rparr>"

definition queryset_list_kwargs :: kwargs where
  "queryset_list_kwargs =
     [(''nested_name'', VStr ''recent''), (''parent_resource'', VResource queryset_resource),
      (''parent_object'', VObj 7), (''related_manager'', VQuerySet 4)]"

section \<open>Auxiliary facts\<close>

lemmas io_defs = io_bind_def io_try_def io_call_def io_return_def io_raise_def io_pure_def

lemma try_del_filter: "try_del k d = filter (\<lambda>kv. fst kv \<noteq> k) d"
proof (cases "dict_contains k d")
  case True
  then show ?thesis
    by (auto simp: try_del_def dict_del_def AList.delete_eq intro: filter_cong)
next
  case False
  then have "\<forall>kv\<in>set d. fst kv \<noteq> k" by (auto simp: dict_contains_def)
  then have "filter (\<lambda>kv. fst kv \<noteq> k) d = d" by (simp add: filter_id_conv)
  with False show ?thesis by (simp add: try_del_def dict_del_def)
qed

lemma fold_try_del: "fold try_del ks d = filter (\<lambda>kv. fst kv \<notin> set ks) d"
proof (induction ks arbitrary: d)
  case Nil
  show ?case by simp
next
  case (Cons k ks)
  have "fold try_del (k # ks) d = filter (\<lambda>kv. fst kv \<notin> set ks) (filter (\<lambda>kv. fst kv \<noteq> k) d)"
    by (simp add: Cons try_del_filter)
  also have "\<dots> = filter (\<lambda>kv. fst kv \<notin> set (k # ks)) d"
    by (auto intro: filter_cong)
  finally show ?case .
qed

lemma real_remove_filter:
  "real_remove_api_resource_names d = filter (\<lambda>kv. fst kv \<notin> set stripped_keys) d"
  by (simp add: real_remove_api_resource_names_def dict_copy_def fold_try_del)






subsection \<open>Traces of the wrappers\<close>









section \<open>The claims\<close>



text \<open>
  C9. The overridden \<open>remove_api_resource_names\<close> returns a copy with every entry of its
  argument, \<open>api_name\<close> and \<open>resource_name\<close> included; the entries that
  \<open>real_remove_api_resource_names\<close> drops are exactly those under the seven stripped keys.
\<close>

theorem remove_api_resource_names_identity:
  "remove_api_resource_names d = d
   \<and> real_remove_api_resource_names d = filter (\<lambda>kv. fst kv \<notin> set stripped_keys) d"
  by (simp add: remove_api_resource_names_def dict_copy_def real_remove_filter)

theorem remove_api_resource_names_identity_witness:
  "remove_api_resource_names [(''api_name'', VStr ''v1''), (''pk'', VStr ''7'')]
     = [(''api_name'', VStr ''v1''), (''pk'', VStr ''7'')]
   \<and> real_remove_api_resource_names [(''api_name'', VStr ''v1''), (''pk'', VStr ''7'')]
     = [(''pk'', VStr ''7'')]"
  using remove_api_resource_names_identity [of "[(''api_name'', VStr ''v1''), (''pk'', VStr ''7'')]"]
  by (simp add: stripped_keys_def)

text \<open>
  C5. With the key \<open>parent_resource\<close> among its keyword arguments, each of \<open>post_list\<close>,
  \<open>put_list\<close> and \<open>patch_list\<close> raises \<open>NotImplementedError\<close> and calls nothing: the trace
  is left as it was. Without the key each is the method of the base class on the same
  request and keyword arguments.
\<close>

theorem list_mutations_refused_when_nested:
  "(dict_contains ''parent_resource'' kwargs \<longrightarrow>
      post_list fw self req kwargs t
        = (Inl (NotImplementedError ''You cannot post a list on a nested resource.''), t)
    \<and> put_list fw self req kwargs t
        = (Inl (NotImplementedError ''You cannot put a list on a nested resource.''), t)
    \<and> patch_list fw self req kwargs t
        = (Inl (NotImplementedError ''You cannot patch a list on a nested resource.''), t))
   \<and> (\<not> dict_contains ''parent_resource'' kwargs \<longrightarrow>
      post_list fw self req kwargs = super_post_list fw req kwargs
    \<and> put_list fw self req kwargs = super_put_list fw req kwargs
    \<and> patch_list fw self req kwargs = super_patch_list fw req kwargs)"
  by (simp add: post_list_def put_list_def patch_list_def io_raise_def)

theorem list_mutations_refused_when_nested_witness:
  "dict_contains ''parent_resource'' nested_call_kwargs
   \<and> post_list sample_framework user_resource get_request nested_call_kwargs []
       = (Inl (NotImplementedError ''You cannot post a list on a nested resource.''), [])
   \<and> put_list sample_framework user_resource get_request nested_call_kwargs []
       = (Inl (NotImplementedError ''You cannot put a list on a nested resource.''), [])
   \<and> patch_list sample_framework user_resource get_request nested_call_kwargs []
       = (Inl (NotImplementedError ''You cannot patch a list on a nested resource.''), [])
   \<and> \<not> dict_contains ''parent_resource'' [(''pk'', VStr ''7'')]
   \<and> post_list sample_framework user_resource get_request [(''pk'', VStr ''7'')] []
       = (Inr (HttpResponse 200 ''ok''), [SuperPostList get_request [(''pk'', VStr ''7'')]])"
proof -
  have nested: "dict_contains ''parent_resource'' nested_call_kwargs"
    by (simp add: dict_contains_def nested_call_kwargs_def)
  have plain: "\<not> dict_contains ''parent_resource'' [(''pk'', VStr ''7'')]"
    by (simp add: dict_contains_def)
  show ?thesis
    using nested plain
      list_mutations_refused_when_nested
        [of nested_call_kwargs sample_framework user_resource get_request "[]"]
      list_mutations_refused_when_nested
        [of "[(''pk'', VStr ''7'')]" sample_framework user_resource get_request "[]"]
    by (simp add: super_post_list_def io_call_def sample_framework_def)
qed

text \<open>
  C10. \<open>obj_get_no_auth_check\<close> makes one call, the filter call, and hands it the keyword
  arguments exactly as received. \<open>get_via_uri_no_auth_check\<close> passes on whatever the URL
  resolver returned, so \<open>api_name\<close>, \<open>resource_name\<close> and any bookkeeping key among the
  resolved arguments reach the filter call.
\<close>

theorem obj_get_no_auth_check_passes_kwargs_unmodified:
  "snd (obj_get_no_auth_check fw self req kwargs t) = t @ [GetObjectListFilter req kwargs]
   \<and> handed_over (obj_get_no_auth_check fw self req kwargs) t = [kwargs]
   \<and> (get_via_uri_resolver fw uri t = (Inr resolved, t') \<longrightarrow>
        snd (get_via_uri_no_auth_check fw self uri req t)
          = t' @ [GetObjectListFilter req resolved])"
proof -
  have one: "snd (obj_get_no_auth_check fw self req kw u) = u @ [GetObjectListFilter req kw]"
    for kw u
    by (simp add: obj_get_no_auth_check_def io_defs get_object_list_filter_def
        split: sum.splits)
  have "handed_over (obj_get_no_auth_check fw self req kwargs) t = [kwargs]"
    by (simp add: handed_over_def one handed_kwargs_def)
  moreover have "get_via_uri_resolver fw uri t = (Inr resolved, t') \<longrightarrow>
        snd (get_via_uri_no_auth_check fw self uri req t)
          = t' @ [GetObjectListFilter req resolved]"
    by (simp add: get_via_uri_no_auth_check_def io_bind_def one remove_api_resource_names_def
        dict_copy_def)
  ultimately show ?thesis using one by simp
qed

theorem obj_get_no_auth_check_passes_kwargs_unmodified_witness:
  "get_via_uri_resolver sample_framework ''/api/v1/user/7/'' []
     = (Inr [(''api_name'', VStr ''v1''), (''resource_name'', VStr ''user''), (''pk'', VStr ''7'')],
        [GetScriptPrefix, Resolve ''/api/v1/user/7/''])
   \<and> snd (get_via_uri_no_auth_check sample_framework user_resource ''/api/v1/user/7/'' None [])
     = [GetScriptPrefix, Resolve ''/api/v1/user/7/'',
        GetObjectListFilter None
          [(''api_name'', VStr ''v1''), (''resource_name'', VStr ''user''), (''pk'', VStr ''7'')]]"
proof -
  have r: "get_via_uri_resolver sample_framework ''/api/v1/user/7/'' []
     = (Inr [(''api_name'', VStr ''v1''), (''resource_name'', VStr ''user''), (''pk'', VStr ''7'')],
        [GetScriptPrefix, Resolve ''/api/v1/user/7/''])"
    by (simp add: get_via_uri_resolver_def io_defs get_script_prefix_def resolve_def
        sample_framework_def)
  show ?thesis
    using r obj_get_no_auth_check_passes_kwargs_unmodified
        [of sample_framework user_resource None "[]" "[]" "''/api/v1/user/7/''"
            "[(''api_name'', VStr ''v1''), (''resource_name'', VStr ''user''), (''pk'', VStr ''7'')]"
            "[GetScriptPrefix, Resolve ''/api/v1/user/7/'']"]
    by simp
qed

subsection \<open>A lookup value of the wrong type\<close>

lemma value_error_in_detail_lookups:
  "(fst (get_object_list_filter fw (bundle_request b) (real_remove_api_resource_names kwargs) t)
      = Inl ValueError \<longrightarrow>
      fst (obj_get fw self b kwargs t) = Inl (NotFound mismatched_type))
   \<and> (fst (get_object_list_filter fw req kwargs t) = Inl ValueError \<longrightarrow>
      fst (obj_get_no_auth_check fw self req kwargs t) = Inl (NotFound mismatched_type))
   \<and> fst (obj_get fw self b kwargs t) \<noteq> Inl ValueError
   \<and> fst (obj_get_no_auth_check fw self req kwargs t) \<noteq> Inl ValueError"
proof -
  have a: "fst (get_object_list_filter fw (bundle_request b) (real_remove_api_resource_names kwargs) t)
      = Inl ValueError \<longrightarrow>
      fst (obj_get fw self b kwargs t) = Inl (NotFound mismatched_type)"
    by (auto simp: obj_get_def io_defs get_object_list_filter_def split: sum.splits prod.splits)
  have b: "fst (get_object_list_filter fw req kwargs t) = Inl ValueError \<longrightarrow>
      fst (obj_get_no_auth_check fw self req kwargs t) = Inl (NotFound mismatched_type)"
    by (auto simp: obj_get_no_auth_check_def io_defs get_object_list_filter_def
        split: sum.splits prod.splits)
  have e: "fst (obj_get fw self b kwargs t) \<noteq> Inl ValueError"
    by (auto simp: obj_get_def io_defs split: sum.splits prod.splits if_splits)
  have f: "fst (obj_get_no_auth_check fw self req kwargs t) \<noteq> Inl ValueError"
    by (auto simp: obj_get_no_auth_check_def io_defs split: sum.splits prod.splits if_splits)
  from a b e f show ?thesis by blast
qed

lemma http_has_no_BadRequest: "''BadRequest'' \<notin> set http_names"
  by (simp add: http_names_def)

lemma raise_http_BadRequest_is_attribute_error:
  "raise_http_BadRequest message t = (Inl AttributeError, t)"
  by (simp add: raise_http_BadRequest_def http_has_no_BadRequest io_raise_def)

lemma value_error_in_list_lookup:
  "build_filters fw (dict_update (request_filters b) (real_remove_api_resource_names kwargs)) t
        = (Inr applicable, t1)
   \<Longrightarrow> apply_filters fw (bundle_request b) applicable t1 = (Inl ValueError, t2)
   \<Longrightarrow> obj_get_list fw self b kwargs t = (Inl AttributeError, t2)"
  by (simp add: obj_get_list_def Let_def io_bind_def io_try_def
      raise_http_BadRequest_is_attribute_error)

text \<open>
  C7. A lookup value of the wrong type, at the sample deployment. In \<open>obj_get\<close> and in
  \<open>obj_get_no_auth_check\<close> the \<open>ValueError\<close> of the filter call comes out as \<open>NotFound\<close>. In
  \<open>obj_get_list\<close> the handler of the \<open>ValueError\<close> of \<open>apply_filters\<close> names
  \<^verbatim>\<open>http.BadRequest\<close>, which the module \<^verbatim>\<open>tastypie.http\<close> does not have: the lookup ends in
  \<open>AttributeError\<close>, and no bad-request condition is raised.
\<close>

theorem obj_get_list_value_error_ends_in_attribute_error:
  "fst (get_object_list_filter sample_framework (Some get_request) [(''pk'', VStr ''x'')] [])
     = Inl ValueError
   \<and> fst (obj_get sample_framework user_resource basic_bundle [(''pk'', VStr ''x'')] [])
     = Inl (NotFound mismatched_type)
   \<and> fst (obj_get_no_auth_check sample_framework user_resource (Some get_request)
            [(''pk'', VStr ''x'')] [])
     = Inl (NotFound mismatched_type)
   \<and> fst (apply_filters value_error_framework (Some get_request)
            [(''limit'', VStr ''20''), (''pk'', VStr ''x'')]
            [BuildFilters [(''limit'', VStr ''20''), (''pk'', VStr ''x'')]])
     = Inl ValueError
   \<and> obj_get_list value_error_framework user_resource basic_bundle [(''pk'', VStr ''x'')] []
     = (Inl AttributeError,
        [BuildFilters [(''limit'', VStr ''20''), (''pk'', VStr ''x'')],
         ApplyFilters (Some get_request) [(''limit'', VStr ''20''), (''pk'', VStr ''x'')]])"
proof -
  have s: "real_remove_api_resource_names [(''pk'', VStr ''x'')] = [(''pk'', VStr ''x'')]"
    by (simp add: real_remove_filter stripped_keys_def)
  have f: "dict_update (request_filters basic_bundle) [(''pk'', VStr ''x'')]
             = [(''limit'', VStr ''20''), (''pk'', VStr ''x'')]"
    by (simp add: dict_update_def request_filters_def basic_bundle_def get_request_def
        dict_copy_def)
  have br: "bundle_request basic_bundle = Some get_request"
    by (simp add: basic_bundle_def)
  have h1: "fst (get_object_list_filter sample_framework (Some get_request) [(''pk'', VStr ''x'')] [])
     = Inl ValueError"
    by (simp add: get_object_list_filter_def io_call_def sample_framework_def)
  have h2: "build_filters value_error_framework [(''limit'', VStr ''20''), (''pk'', VStr ''x'')] []
     = (Inr [(''limit'', VStr ''20''), (''pk'', VStr ''x'')],
        [BuildFilters [(''limit'', VStr ''20''), (''pk'', VStr ''x'')]])"
    by (simp add: build_filters_def io_call_def value_error_framework_def sample_framework_def)
  have h3: "apply_filters value_error_framework (Some get_request)
            [(''limit'', VStr ''20''), (''pk'', VStr ''x'')]
            [BuildFilters [(''limit'', VStr ''20''), (''pk'', VStr ''x'')]]
     = (Inl ValueError,
        [BuildFilters [(''limit'', VStr ''20''), (''pk'', VStr ''x'')],
         ApplyFilters (Some get_request) [(''limit'', VStr ''20''), (''pk'', VStr ''x'')]])"
    by (simp add: apply_filters_def io_call_def value_error_framework_def)
  have l: "obj_get_list value_error_framework user_resource basic_bundle [(''pk'', VStr ''x'')] []
     = (Inl AttributeError,
        [BuildFilters [(''limit'', VStr ''20''), (''pk'', VStr ''x'')],
         ApplyFilters (Some get_request) [(''limit'', VStr ''20''), (''pk'', VStr ''x'')]])"
    using value_error_in_list_lookup
        [of value_error_framework basic_bundle "[(''pk'', VStr ''x'')]" "[]"
            "[(''limit'', VStr ''20''), (''pk'', VStr ''x'')]"
            "[BuildFilters [(''limit'', VStr ''20''), (''pk'', VStr ''x'')]]" _ user_resource]
      h2 h3
    by (simp add: s f br)
  show ?thesis
    using h1 h3 l
      value_error_in_detail_lookups
        [of sample_framework basic_bundle "[(''pk'', VStr ''x'')]" "[]" user_resource
            "Some get_request"]
    by (simp add: s br)
qed

text \<open>
  C6. \<open>cached_obj_get\<close> run on a cache that holds object 7 under the key: the key is
  generated from the stripped keyword arguments and the cache is consulted, no lookup is
  made, and the value returned is the bundle that was passed in, not the cached object.
\<close>

theorem cached_obj_get_hit_returns_request_bundle:
  "fst (cache_get hit_framework ''v1:user:detail:pk=7''
          [GenerateCacheKey ''detail'' [(''pk'', VStr ''7'')]]) = Inr (VObj 7)
   \<and> cached_obj_get hit_framework user_resource basic_bundle
         [(''pk'', VStr ''7''), (''nested_name'', VStr ''entries'')] []
       = (Inr (VBundle basic_bundle),
          [GenerateCacheKey ''detail'' [(''pk'', VStr ''7'')], CacheGet ''v1:user:detail:pk=7''])"
proof -
  have s: "real_remove_api_resource_names [(''pk'', VStr ''7''), (''nested_name'', VStr ''entries'')]
             = [(''pk'', VStr ''7'')]"
    by (simp add: real_remove_filter stripped_keys_def)
  show ?thesis
    by (simp add: cached_obj_get_def s io_defs generate_cache_key_def cache_get_def
        hit_framework_def sample_framework_def)
qed

text \<open>
  C3. \<open>apply_proper_authorization_limits\<close>, as the code has it. When \<open>parent_resource\<close> is
  absent from the keyword arguments or is \<open>None\<close>, the result is the resource's standard
  \<open>apply_authorization_limits\<close>. When it is a resource and \<open>nested_name\<close> is the string
  \<open>n\<close>: if the parent's authorization object has an attribute \<open>apply_limits_nested_n\<close>, the
  result is that method on the request, the parent object and the object list; if it has
  none, the object list is returned as it is and no authorization method is called.
\<close>

theorem authorization_limits_selection:
  "(dict_get ''parent_resource'' kwargs = VNone \<longrightarrow>
      apply_proper_authorization_limits fw self req object_list kwargs
        = apply_authorization_limits fw req object_list)
   \<and> (dict_get ''parent_resource'' kwargs = VResource parent
      \<and> dict_get ''nested_name'' kwargs = VStr n
      \<and> ''apply_limits_nested_'' @ n \<in> set (authorization_attrs parent) \<longrightarrow>
      apply_proper_authorization_limits fw self req object_list kwargs
        = nested_authorization_method fw parent (''apply_limits_nested_'' @ n) req
            (dict_get ''parent_object'' kwargs) object_list)
   \<and> (dict_get ''parent_resource'' kwargs = VResource parent
      \<and> dict_get ''nested_name'' kwargs = VStr n
      \<and> ''apply_limits_nested_'' @ n \<notin> set (authorization_attrs parent) \<longrightarrow>
      apply_proper_authorization_limits fw self req object_list kwargs t
        = (Inr object_list, t))"
  by (auto simp: apply_proper_authorization_limits_def apply_nested_authorization_limits_def
      format_val_def io_bind_def io_pure_def io_return_def Let_def fun_eq_iff)

theorem authorization_limits_selection_witness:
  "apply_proper_authorization_limits sample_framework user_resource (Some get_request) [7, 8]
       [(''pk'', VStr ''7'')] []
     = (Inr [], [ApplyAuthorizationLimits (Some get_request) [7, 8]])
   \<and> apply_proper_authorization_limits sample_framework user_resource (Some get_request) [7, 8]
       hook_call_kwargs []
     = (Inr [7],
        [NestedAuthorizationMethod 1 ''apply_limits_nested_entries'' (Some get_request)
           (VObj 3) [7, 8]])
   \<and> apply_proper_authorization_limits sample_framework user_resource (Some get_request) [7, 8]
       nested_call_kwargs []
     = (Inr [7, 8], [])"
proof -
  have p0: "dict_get ''parent_resource'' [(''pk'', VStr ''7'')] = VNone"
    by (simp add: dict_get_def)
  have p1: "dict_get ''parent_resource'' hook_call_kwargs = VResource hook_resource"
           "dict_get ''nested_name'' hook_call_kwargs = VStr ''entries''"
           "dict_get ''parent_object'' hook_call_kwargs = VObj 3"
           "''apply_limits_nested_'' @ ''entries'' \<in> set (authorization_attrs hook_resource)"
    by (simp_all add: dict_get_def hook_call_kwargs_def hook_resource_def)
  have p2: "dict_get ''parent_resource'' nested_call_kwargs = VResource user_resource"
           "dict_get ''nested_name'' nested_call_kwargs = VStr ''entries''"
           "''apply_limits_nested_'' @ ''entries'' \<notin> set (authorization_attrs user_resource)"
    by (simp_all add: dict_get_def nested_call_kwargs_def user_resource_def)
  have r: "res_id hook_resource = 1"
    by (simp add: hook_resource_def user_resource_def)
  show ?thesis
    using p0 p1 p2
      authorization_limits_selection
        [of "[(''pk'', VStr ''7'')]" sample_framework user_resource "Some get_request" "[7, 8]"]
      authorization_limits_selection
        [of hook_call_kwargs sample_framework user_resource "Some get_request" "[7, 8]"
            hook_resource "''entries''"]
      authorization_limits_selection
        [of nested_call_kwargs sample_framework user_resource "Some get_request" "[7, 8]"
            user_resource "''entries''" "[]"]
    by (simp add: apply_authorization_limits_def nested_authorization_method_def io_call_def
        sample_framework_def r)
qed

theorem authorization_limits_no_fallback_counterexample:
  "dict_contains ''parent_resource'' nested_call_kwargs
   \<and> ''apply_limits_nested_entries'' \<notin> set (authorization_attrs user_resource)
   \<and> apply_proper_authorization_limits sample_framework user_resource (Some get_request) [7, 8]
       nested_call_kwargs []
     = (Inr [7, 8], [])
   \<and> apply_authorization_limits sample_framework (Some get_request) [7, 8] []
     = (Inr [], [ApplyAuthorizationLimits (Some get_request) [7, 8]])
   \<and> apply_proper_authorization_limits sample_framework user_resource (Some get_request) [7, 8]
       nested_call_kwargs []
     \<noteq> apply_authorization_limits sample_framework (Some get_request) [7, 8] []"
  by (simp add: apply_proper_authorization_limits_def apply_nested_authorization_limits_def
      format_val_def io_bind_def io_pure_def io_return_def io_call_def Let_def dict_get_def
      dict_contains_def nested_call_kwargs_def user_resource_def
      apply_authorization_limits_def sample_framework_def)

subsection \<open>The matcher decides the language of a pattern\<close>

lemma nullable_lang: "nullable r \<longleftrightarrow> [] \<in> lang alnum r"
  by (induction r) (auto intro: star_nil)

lemma star_cons_split:
  assumes "w \<in> star A" and "w = c # s"
  shows "\<exists>u v. s = u @ v \<and> c # u \<in> A \<and> v \<in> star A"
  using assms
proof (induction arbitrary: s rule: star.induct)
  case star_nil
  then show ?case by simp
next
  case (star_app u v)
  show ?case
  proof (cases u)
    case Nil
    with star_app show ?thesis by simp
  next
    case (Cons d u')
    with star_app.prems have "d = c" and "s = u' @ v" by simp_all
    with Cons star_app.hyps show ?thesis by blast
  qed
qed

lemma star_cons: "c # s \<in> star A \<longleftrightarrow> (\<exists>u v. s = u @ v \<and> c # u \<in> A \<and> v \<in> star A)"
proof
  assume "c # s \<in> star A"
  then show "\<exists>u v. s = u @ v \<and> c # u \<in> A \<and> v \<in> star A"
    by (rule star_cons_split) simp
next
  assume "\<exists>u v. s = u @ v \<and> c # u \<in> A \<and> v \<in> star A"
  then obtain u v where "s = u @ v" "c # u \<in> A" "v \<in> star A" by blast
  then show "c # s \<in> star A" using star_app [of "c # u" A v] by simp
qed

lemma lang_deriv: "lang alnum (deriv alnum c r) = {s. c # s \<in> lang alnum r}"
proof (induction r)
  case (Seq r1 r2)
  then show ?case
    by (auto simp: nullable_lang [of _ alnum] append_eq_Cons_conv Cons_eq_append_conv)
next
  case (Star r)
  then show ?case by (auto simp: star_cons)
qed auto

lemma fold_deriv_lang: "nullable (fold (deriv alnum) s r) \<longleftrightarrow> s \<in> lang alnum r"
  by (induction s arbitrary: r) (simp_all add: nullable_lang [of _ alnum] lang_deriv)

lemma star_singletons: "s \<in> star {[c] | c. P c} \<longleftrightarrow> list_all P s"
proof (induction s)
  case Nil
  show ?case by (simp add: star_nil)
next
  case (Cons c s)
  show ?case by (auto simp: star_cons Cons)
qed

lemma seq_cls_lang:
  "s \<in> lang alnum (Seq (Cls k) r)
     \<longleftrightarrow> (\<exists>c cs. s = c # cs \<and> cclass_matches alnum k c \<and> cs \<in> lang alnum r)"
proof
  assume "s \<in> lang alnum (Seq (Cls k) r)"
  then obtain c v where "s = [c] @ v" "cclass_matches alnum k c" "v \<in> lang alnum r" by auto
  then show "\<exists>c cs. s = c # cs \<and> cclass_matches alnum k c \<and> cs \<in> lang alnum r" by simp
next
  assume "\<exists>c cs. s = c # cs \<and> cclass_matches alnum k c \<and> cs \<in> lang alnum r"
  then obtain c cs where h: "s = [c] @ cs" "cclass_matches alnum k c" "cs \<in> lang alnum r"
    by auto
  have "[c] \<in> lang alnum (Cls k)" using h(2) by simp
  then show "s \<in> lang alnum (Seq (Cls k) r)" using h(1,3) unfolding lang.simps by blast
qed

lemma seq_one_lang: "lang alnum (Seq r One) = lang alnum r"
  by auto

lemma default_regex_lang:
  "fullmatch alnum detail_uri_name_tree s \<longleftrightarrow>
     (\<exists>c cs. s = c # cs \<and> is_word alnum c \<and> list_all (\<lambda>d. is_word alnum d \<or> d = 45) cs)"
  unfolding fullmatch_def fold_deriv_lang detail_uri_name_tree_def seq_cls_lang seq_one_lang
  by (simp add: star_singletons)

lemma default_regex_compiles:
  "re_compile get_detail_uri_name_regex = Some detail_uri_name_tree"
  by (simp add: re_compile_def get_detail_uri_name_regex_def backslash_def
      detail_uri_name_tree_def)

lemma leading_hyphen_refused: "\<not> fullmatch alnum detail_uri_name_tree (45 # s)"
  by (simp add: default_regex_lang is_word_def ascii_word_def)

lemma routes_carry_the_pattern:
  "url_regex (base_urls slash self ! 2)
     = ''^(?P<resource_name>'' @ resource_name self @ '')/set/(?P<'' @ detail_uri_name self
       @ ''_list>('' @ self_get_detail_uri_name_regex self @ '';?)*)/$''"
  "url_regex (base_urls slash self ! 3)
     = ''^(?P<resource_name>'' @ resource_name self @ '')/(?P<'' @ detail_uri_name self @ ''>''
       @ self_get_detail_uri_name_regex self @ '')'' @ slash @ ''$''"
  "map url_regex (nested_urls slash self)
     = map (\<lambda>n. ''^(?P<resource_name>'' @ resource_name self @ '')/(?P<''
                  @ detail_uri_name self @ ''>'' @ self_get_detail_uri_name_regex self
                  @ '')/(?P<nested_name>'' @ n @ '')'' @ slash @ ''$'')
         (map fst (nested self))"
  "map fst (detail_actions_urlpatterns slash self (a # actions))
     = [''^(?P<resource_name>'' @ resource_name self @ '')/(?P<'' @ detail_uri_name self
        @ ''>'' @ self_get_detail_uri_name_regex self @ '')'' @ slash]"
  by (simp_all add: base_urls_def nested_urls_def get_nested_url_def
      detail_actions_urlpatterns_def)

text \<open>
  C8. The pattern text returned by \<open>get_detail_uri_name_regex\<close> is \<^verbatim>\<open>\w[\w-]*\<close>; whatever
  the character database, it matches exactly the strings that begin with a word character
  and go on with word characters and hyphens. For a resource whose class overrides the
  method with the text \<open>r\<close>, the routes that carry the identifier pattern (the set route,
  the detail route, every nested route and the prefix of the detail actions) carry \<open>r\<close>;
  for a resource without an override they carry the default text.
\<close>

theorem detail_uri_name_regex_language:
  "re_compile get_detail_uri_name_regex = Some detail_uri_name_tree
   \<and> (fullmatch alnum detail_uri_name_tree s \<longleftrightarrow>
        (\<exists>c cs. s = c # cs \<and> is_word alnum c
                 \<and> list_all (\<lambda>d. is_word alnum d \<or> d = 45) cs))
   \<and> (regex_override self = Some r \<longrightarrow>
        url_regex (base_urls slash self ! 2)
          = ''^(?P<resource_name>'' @ resource_name self @ '')/set/(?P<''
            @ detail_uri_name self @ ''_list>('' @ r @ '';?)*)/$''
      \<and> url_regex (base_urls slash self ! 3)
          = ''^(?P<resource_name>'' @ resource_name self @ '')/(?P<'' @ detail_uri_name self
            @ ''>'' @ r @ '')'' @ slash @ ''$''
      \<and> map url_regex (nested_urls slash self)
          = map (\<lambda>n. ''^(?P<resource_name>'' @ resource_name self @ '')/(?P<''
                       @ detail_uri_name self @ ''>'' @ r @ '')/(?P<nested_name>'' @ n @ '')''
                       @ slash @ ''$'')
              (map fst (nested self))
      \<and> map fst (detail_actions_urlpatterns slash self (a # actions))
          = [''^(?P<resource_name>'' @ resource_name self @ '')/(?P<'' @ detail_uri_name self
             @ ''>'' @ r @ '')'' @ slash])
   \<and> (regex_override self = None \<longrightarrow>
        url_regex (base_urls slash self ! 2)
          = ''^(?P<resource_name>'' @ resource_name self @ '')/set/(?P<''
            @ detail_uri_name self @ ''_list>('' @ get_detail_uri_name_regex @ '';?)*)/$''
      \<and> url_regex (base_urls slash self ! 3)
          = ''^(?P<resource_name>'' @ resource_name self @ '')/(?P<'' @ detail_uri_name self
            @ ''>'' @ get_detail_uri_name_regex @ '')'' @ slash @ ''$''
      \<and> map url_regex (nested_urls slash self)
          = map (\<lambda>n. ''^(?P<resource_name>'' @ resource_name self @ '')/(?P<''
                       @ detail_uri_name self @ ''>'' @ get_detail_uri_name_regex
                       @ '')/(?P<nested_name>'' @ n @ '')'' @ slash @ ''$'')
              (map fst (nested self))
      \<and> map fst (detail_actions_urlpatterns slash self (a # actions))
          = [''^(?P<resource_name>'' @ resource_name self @ '')/(?P<'' @ detail_uri_name self
             @ ''>'' @ get_detail_uri_name_regex @ '')'' @ slash])"
proof -
  have over: "regex_override self = Some r \<Longrightarrow> self_get_detail_uri_name_regex self = r"
    by (simp add: self_get_detail_uri_name_regex_def)
  have none: "regex_override self = None
                \<Longrightarrow> self_get_detail_uri_name_regex self = get_detail_uri_name_regex"
    by (simp add: self_get_detail_uri_name_regex_def)
  show ?thesis
    using default_regex_compiles default_regex_lang [of alnum s]
      routes_carry_the_pattern [of slash self]
      routes_carry_the_pattern(4) [of slash self a actions]
    by (auto simp: over none)
qed

theorem detail_uri_name_regex_language_witness:
  "fullmatch no_letters detail_uri_name_tree (map of_char ''a-1_b'')
   \<and> \<not> fullmatch no_letters detail_uri_name_tree (map of_char ''-a'')
   \<and> \<not> fullmatch no_letters detail_uri_name_tree []
   \<and> fullmatch latin1_letters detail_uri_name_tree [233, 45, 97]
   \<and> \<not> fullmatch no_letters detail_uri_name_tree [233, 45, 97]
   \<and> url_regex (base_urls ''/'' user_resource ! 3)
       = ''^(?P<resource_name>user)/(?P<pk>'' @ backslash # ''w['' @ backslash # ''w-]*)/$''
   \<and> url_regex (base_urls ''/'' digits_resource ! 3)
       = ''^(?P<resource_name>user)/(?P<pk>[0-9]*)/$''
   \<and> map url_regex (nested_urls ''/'' digits_resource)
       = [''^(?P<resource_name>user)/(?P<pk>[0-9]*)/(?P<nested_name>entries)/$'']"
proof -
  have o: "regex_override user_resource = None"
          "regex_override digits_resource = Some ''[0-9]*''"
          "resource_name user_resource = ''user''" "detail_uri_name user_resource = ''pk''"
          "resource_name digits_resource = ''user''" "detail_uri_name digits_resource = ''pk''"
          "map fst (nested digits_resource) = [''entries'']"
    by (simp_all add: user_resource_def digits_resource_def)
  have w: "is_word alnum 97" "is_word alnum 49" "is_word alnum 95" "is_word alnum 98"
          "\<not> is_word alnum 45" "is_word latin1_letters 233" "\<not> is_word no_letters 233"
    for alnum
    by (simp_all add: is_word_def ascii_word_def latin1_letters_def no_letters_def)
  show ?thesis
    using w o
      detail_uri_name_regex_language [of no_letters "map of_char ''a-1_b''" user_resource _ "''/''"]
      detail_uri_name_regex_language [of no_letters "map of_char ''-a''" user_resource _ "''/''"]
      detail_uri_name_regex_language [of no_letters "[]" user_resource _ "''/''"]
      detail_uri_name_regex_language [of latin1_letters "[233, 45, 97]" digits_resource
                                         "''[0-9]*''" "''/''"]
      detail_uri_name_regex_language [of no_letters "[233, 45, 97]" user_resource _ "''/''"]
    by (simp add: get_detail_uri_name_regex_def)
qed

theorem detail_uri_name_regex_leading_hyphen_counterexample:
  "map of_char ''-'' \<noteq> ([] :: codepoint list)
   \<and> list_all (\<lambda>d. is_word latin1_letters d \<or> d = 45) (map of_char ''-'')
   \<and> \<not> fullmatch latin1_letters detail_uri_name_tree (map of_char ''-'')
   \<and> \<not> fullmatch no_letters detail_uri_name_tree (map of_char ''-'')"
  by (simp add: fullmatch_def detail_uri_name_tree_def is_word_def ascii_word_def)

subsection \<open>The keyword arguments of a nested list dispatch\<close>

lemma nested_kwargs_list:
  assumes "has_all manager" and "detail_uri_name self \<noteq> ''related_manager''"
  shows "fst (nested_kwargs self nested_name ob manager kwargs) = ''list''"
    and "map_of (snd (nested_kwargs self nested_name ob manager kwargs)) ''related_manager''
           = Some manager"
proof -
  have nn: "manager \<noteq> VNone" using assms(1) by (auto simp: has_all_def)
  show "fst (nested_kwargs self nested_name ob manager kwargs) = ''list''"
    using assms(1) nn by (simp add: nested_kwargs_def Let_def)
  show "map_of (snd (nested_kwargs self nested_name ob manager kwargs)) ''related_manager''
           = Some manager"
    using assms nn
    by (simp add: nested_kwargs_def Let_def dict_set_def AList.update_conv')
qed

lemma dispatch_nested_reaches_dispatch:
  assumes "is_authenticated fw req t = (Inr (), t1)"
    and "throttle_check fw req t1 = (Inr (), t2)"
    and "map_of kwargs ''nested_name'' = Some (VStr n)"
    and "map_of (nested self) n = Some nf"
    and "build_bundle fw VNone (Some req) t2 = (Inr bb, t3)"
    and "parent_lookup fw self bb (AList.delete ''nested_name'' kwargs) t3 = (Inr (Inr ob), t4)"
    and "nested_manager fw nf ob t4 = (Inr manager, t5)"
  shows "dispatch_nested fw self req kwargs t
           = dispatch fw (nf_to_class nf) (api_name self)
               (fst (nested_kwargs self (VStr n) ob manager (AList.delete ''nested_name'' kwargs)))
               req
               (snd (nested_kwargs self (VStr n) ob manager (AList.delete ''nested_name'' kwargs)))
               t5"
  using assms
  by (simp add: dispatch_nested_def io_bind_def io_return_def Let_def case_prod_beta)

lemma obj_get_list_with_manager:
  assumes "map_of kw ''related_manager'' = Some (VManager core_filters)"
    and "build_filters fw (dict_update (request_filters b) (real_remove_api_resource_names kw)) u
           = (Inr applicable, u1)"
    and "apply_filters fw (bundle_request b) applicable u1 = (Inr base, u2)"
    and "queryset_filter fw base core_filters u2 = (Inr filtered, u3)"
  shows "snd (obj_get_list fw self b kw u) = u3 @ [AuthorizedReadList filtered b]"
    and "fst (obj_get_list fw self b kw u)
           = (case fst (authorized_read_list fw filtered b u3) of
                Inl e \<Rightarrow> Inl (if e = ValueError then AttributeError else e)
              | Inr result \<Rightarrow> Inr result)"
  using assms
  by (auto simp: obj_get_list_def Let_def io_bind_def io_try_def io_return_def io_raise_def
      authorized_read_list_def io_call_def raise_http_BadRequest_def http_names_def
      split: sum.splits prod.splits)

lemma list_query_trace:
  assumes "build_filters fw filters u = (Inr applicable, u1)"
    and "apply_filters fw r applicable u1 = (Inr base, u2)"
    and "queryset_filter fw base core_filters u2 = (Inr filtered, u3)"
  shows "u3 = u @ [BuildFilters filters, ApplyFilters r applicable,
                   QuerysetFilter base core_filters]"
  using assms
  by (auto simp: build_filters_def apply_filters_def queryset_filter_def io_call_def)

text \<open>
  Where the relation is a related manager: a nested dispatch on a resource whose
  \<open>detail_uri_name\<close> is not the key \<open>related_manager\<close> dispatches the nested resource as a
  list with the manager under that key, and \<open>obj_get_list\<close> with a related manager under
  the key filters the list that \<open>apply_filters\<close> returned by the manager's core filters.
\<close>

lemma related_manager_filters_list_query:
  "(detail_uri_name self \<noteq> ''related_manager''
      \<and> is_authenticated fw req t = (Inr (), t1)
      \<and> throttle_check fw req t1 = (Inr (), t2)
      \<and> map_of kwargs ''nested_name'' = Some (VStr n)
      \<and> map_of (nested self) n = Some nf
      \<and> build_bundle fw VNone (Some req) t2 = (Inr bb, t3)
      \<and> parent_lookup fw self bb (AList.delete ''nested_name'' kwargs) t3 = (Inr (Inr ob), t4)
      \<and> nested_manager fw nf ob t4 = (Inr manager, t5)
      \<and> has_all manager \<longrightarrow>
      dispatch_nested fw self req kwargs t
        = dispatch fw (nf_to_class nf) (api_name self) ''list'' req
            (snd (nested_kwargs self (VStr n) ob manager (AList.delete ''nested_name'' kwargs))) t5
      \<and> map_of (snd (nested_kwargs self (VStr n) ob manager
                        (AList.delete ''nested_name'' kwargs))) ''related_manager''
          = Some manager)
   \<and> (map_of kw ''related_manager'' = Some (VManager core_filters)
      \<and> build_filters fw (dict_update (request_filters b) (real_remove_api_resource_names kw)) u
          = (Inr applicable, u1)
      \<and> apply_filters fw (bundle_request b) applicable u1 = (Inr base, u2)
      \<and> queryset_filter fw base core_filters u2 = (Inr filtered, u3) \<longrightarrow>
      snd (obj_get_list fw child b kw u)
        = u @ [BuildFilters (dict_update (request_filters b) (real_remove_api_resource_names kw)),
               ApplyFilters (bundle_request b) applicable,
               QuerysetFilter base core_filters,
               AuthorizedReadList filtered b]
      \<and> fst (obj_get_list fw child b kw u)
          = (case fst (authorized_read_list fw filtered b u3) of
               Inl e \<Rightarrow> Inl (if e = ValueError then AttributeError else e)
             | Inr result \<Rightarrow> Inr result))"
proof -
  have one: "detail_uri_name self \<noteq> ''related_manager''
      \<and> is_authenticated fw req t = (Inr (), t1)
      \<and> throttle_check fw req t1 = (Inr (), t2)
      \<and> map_of kwargs ''nested_name'' = Some (VStr n)
      \<and> map_of (nested self) n = Some nf
      \<and> build_bundle fw VNone (Some req) t2 = (Inr bb, t3)
      \<and> parent_lookup fw self bb (AList.delete ''nested_name'' kwargs) t3 = (Inr (Inr ob), t4)
      \<and> nested_manager fw nf ob t4 = (Inr manager, t5)
      \<and> has_all manager \<longrightarrow>
      dispatch_nested fw self req kwargs t
        = dispatch fw (nf_to_class nf) (api_name self) ''list'' req
            (snd (nested_kwargs self (VStr n) ob manager (AList.delete ''nested_name'' kwargs))) t5
      \<and> map_of (snd (nested_kwargs self (VStr n) ob manager
                        (AList.delete ''nested_name'' kwargs))) ''related_manager''
          = Some manager"
    using dispatch_nested_reaches_dispatch [of fw req t t1 t2 kwargs n self nf bb t3 ob t4 manager t5]
      nested_kwargs_list [of manager self "VStr n" ob "AList.delete ''nested_name'' kwargs"]
    by auto
  have two: "map_of kw ''related_manager'' = Some (VManager core_filters)
      \<and> build_filters fw (dict_update (request_filters b) (real_remove_api_resource_names kw)) u
          = (Inr applicable, u1)
      \<and> apply_filters fw (bundle_request b) applicable u1 = (Inr base, u2)
      \<and> queryset_filter fw base core_filters u2 = (Inr filtered, u3) \<longrightarrow>
      snd (obj_get_list fw child b kw u)
        = u @ [BuildFilters (dict_update (request_filters b) (real_remove_api_resource_names kw)),
               ApplyFilters (bundle_request b) applicable,
               QuerysetFilter base core_filters,
               AuthorizedReadList filtered b]
      \<and> fst (obj_get_list fw child b kw u)
          = (case fst (authorized_read_list fw filtered b u3) of
               Inl e \<Rightarrow> Inl (if e = ValueError then AttributeError else e)
             | Inr result \<Rightarrow> Inr result)"
    using obj_get_list_with_manager [of kw core_filters fw b u applicable u1 base u2 filtered u3 child]
      list_query_trace [of fw "dict_update (request_filters b) (real_remove_api_resource_names kw)"
                           u applicable u1 "bundle_request b" base u2 core_filters filtered u3]
    by auto
  from one two show ?thesis by (rule conjI)
qed

subsection \<open>The sample deployment, run\<close>

lemmas framework_calls =
  build_filters_def apply_filters_def queryset_filter_def authorized_read_list_def
  get_object_list_filter_def authorized_read_detail_def generate_cache_key_def cache_get_def
  cache_set_def is_authenticated_def throttle_check_def build_bundle_def
  getattr_default_none_def call_attribute_def dispatch_def full_dehydrate_def
  alter_detail_data_to_serialize_def create_response_def

lemma real_remove_pk: "real_remove_api_resource_names [(''pk'', VStr v)] = [(''pk'', VStr v)]"
  by (simp add: real_remove_filter stripped_keys_def)

lemma real_remove_nested_list_kwargs: "real_remove_api_resource_names nested_list_kwargs = []"
  by (simp add: real_remove_filter stripped_keys_def nested_list_kwargs_def)

lemma sample_parent_lookup:
  "parent_lookup sample_framework user_resource basic_bundle [(''pk'', VStr ''7'')] t
     = (Inr (Inr (VObj 7)),
        t @ [GenerateCacheKey ''detail'' [(''pk'', VStr ''7'')],
             CacheGet ''v1:user:detail:pk=7'',
             GetObjectListFilter (Some get_request) [(''pk'', VStr ''7'')],
             AuthorizedReadDetail [7] (basic_bundle\<lparr>bundle_obj := Some 7\<rparr>),
             CacheSet ''v1:user:detail:pk=7'' (VObj 7)])"
  by (simp add: parent_lookup_def cached_obj_get_def obj_get_def remove_api_resource_names_def
      dict_copy_def real_remove_pk io_defs framework_calls stringified_kwargs_def
      format_val_def sample_framework_def basic_bundle_def)

lemma sample_dispatch_nested:
  "dispatch_nested sample_framework user_resource get_request
     [(''pk'', VStr ''7''), (''nested_name'', VStr ''entries'')] []
   = (Inr (HttpResponse 200 ''ok''),
      [IsAuthenticated get_request, ThrottleCheck get_request,
       BuildBundle VNone (Some get_request),
       GenerateCacheKey ''detail'' [(''pk'', VStr ''7'')],
       CacheGet ''v1:user:detail:pk=7'',
       GetObjectListFilter (Some get_request) [(''pk'', VStr ''7'')],
       AuthorizedReadDetail [7] (basic_bundle\<lparr>bundle_obj := Some 7\<rparr>),
       CacheSet ''v1:user:detail:pk=7'' (VObj 7),
       GetAttr (VObj 7) ''entry_set'',
       Dispatch 2 ''v1'' ''list'' get_request nested_list_kwargs])"
proof -
  have bb: "build_bundle sample_framework VNone (Some get_request)
              [IsAuthenticated get_request, ThrottleCheck get_request]
            = (Inr basic_bundle,
               [IsAuthenticated get_request, ThrottleCheck get_request,
                BuildBundle VNone (Some get_request)])"
    by (simp add: build_bundle_def io_call_def sample_framework_def basic_bundle_def)
  have nk: "nested_kwargs user_resource (VStr ''entries'') (VObj 7) entries_manager
              [(''pk'', VStr ''7'')] = (''list'', nested_list_kwargs)"
    by (simp add: nested_kwargs_def Let_def dict_set_def dict_contains_def has_all_def
        entries_manager_def nested_list_kwargs_def user_resource_def)
  have pr: "nested user_resource
              = [(''entries'', \<lparr>nf_attribute = AttrName ''entry_set'', nf_to_class = 2\<rparr>)]"
           "api_name user_resource = ''v1''"
    by (simp_all add: user_resource_def)
  have au: "is_authenticated sample_framework get_request [] = (Inr (), [IsAuthenticated get_request])"
           "throttle_check sample_framework get_request [IsAuthenticated get_request]
              = (Inr (), [IsAuthenticated get_request, ThrottleCheck get_request])"
    by (simp_all add: is_authenticated_def throttle_check_def io_call_def sample_framework_def)
  have nm: "nested_manager sample_framework
              \<lparr>nf_attribute = AttrName ''entry_set'', nf_to_class = 2\<rparr> (VObj 7) t
            = (Inr entries_manager, t @ [GetAttr (VObj 7) ''entry_set''])" for t
    by (simp add: nested_manager_def io_try_def getattr_default_none_def io_call_def
        sample_framework_def entries_manager_def)
  have di: "dispatch sample_framework 2 ''v1'' ''list'' get_request nested_list_kwargs t
            = (Inr (HttpResponse 200 ''ok''),
               t @ [Dispatch 2 ''v1'' ''list'' get_request nested_list_kwargs])" for t
    by (simp add: dispatch_def io_call_def sample_framework_def)
  show ?thesis
    by (simp add: dispatch_nested_def Let_def io_bind_def io_return_def au bb
        sample_parent_lookup nm nk di pr)
qed

lemma sample_obj_get_list_nested:
  "obj_get_list sample_framework entry_resource basic_bundle nested_list_kwargs []
   = (Inr [8],
      [BuildFilters [(''limit'', VStr ''20'')],
       ApplyFilters (Some get_request) [(''limit'', VStr ''20'')],
       QuerysetFilter [7, 8] [(''user'', VObj 7)],
       AuthorizedReadList [8] basic_bundle])"
proof -
  have rf: "request_filters basic_bundle = [(''limit'', VStr ''20'')]"
    by (simp add: request_filters_def basic_bundle_def get_request_def dict_copy_def)
  have rm: "map_of nested_list_kwargs ''related_manager'' = Some (VManager [(''user'', VObj 7)])"
    by (simp add: nested_list_kwargs_def entries_manager_def)
  have br: "bundle_request basic_bundle = Some get_request"
    by (simp add: basic_bundle_def)
  show ?thesis
    by (simp add: obj_get_list_def Let_def real_remove_nested_list_kwargs rf rm br
        dict_update_def io_defs framework_calls sample_framework_def)
qed

lemma sample_nested_list_query:
  "has_all entries_manager
   \<and> detail_uri_name user_resource \<noteq> ''related_manager''
   \<and> dispatch_nested sample_framework user_resource get_request
        [(''pk'', VStr ''7''), (''nested_name'', VStr ''entries'')] []
      = dispatch sample_framework 2 ''v1'' ''list'' get_request nested_list_kwargs
          [IsAuthenticated get_request, ThrottleCheck get_request,
           BuildBundle VNone (Some get_request),
           GenerateCacheKey ''detail'' [(''pk'', VStr ''7'')],
           CacheGet ''v1:user:detail:pk=7'',
           GetObjectListFilter (Some get_request) [(''pk'', VStr ''7'')],
           AuthorizedReadDetail [7] (basic_bundle\<lparr>bundle_obj := Some 7\<rparr>),
           CacheSet ''v1:user:detail:pk=7'' (VObj 7),
           GetAttr (VObj 7) ''entry_set'']
   \<and> map_of nested_list_kwargs ''related_manager'' = Some entries_manager
   \<and> snd (obj_get_list sample_framework entry_resource basic_bundle nested_list_kwargs [])
      = [BuildFilters [(''limit'', VStr ''20'')],
         ApplyFilters (Some get_request) [(''limit'', VStr ''20'')],
         QuerysetFilter [7, 8] [(''user'', VObj 7)],
         AuthorizedReadList [8] basic_bundle]
   \<and> fst (obj_get_list sample_framework entry_resource basic_bundle nested_list_kwargs [])
      = Inr [8]"
proof -
  let ?kwargs = "[(''pk'', VStr ''7''), (''nested_name'', VStr ''entries'')]"
  let ?nf = "\<lparr>nf_attribute = AttrName ''entry_set'', nf_to_class = 2\<rparr>"
  let ?t1 = "[IsAuthenticated get_request]"
  let ?t2 = "[IsAuthenticated get_request, ThrottleCheck get_request]"
  let ?t3 = "?t2 @ [BuildBundle VNone (Some get_request)]"
  let ?t4 = "?t3 @ [GenerateCacheKey ''detail'' [(''pk'', VStr ''7'')],
                    CacheGet ''v1:user:detail:pk=7'',
                    GetObjectListFilter (Some get_request) [(''pk'', VStr ''7'')],
                    AuthorizedReadDetail [7] (basic_bundle\<lparr>bundle_obj := Some 7\<rparr>),
                    CacheSet ''v1:user:detail:pk=7'' (VObj 7)]"
  let ?t5 = "?t4 @ [GetAttr (VObj 7) ''entry_set'']"
  let ?f = "[(''limit'', VStr ''20'')]"
  have h0: "has_all entries_manager" "detail_uri_name user_resource \<noteq> ''related_manager''"
    by (simp_all add: has_all_def entries_manager_def user_resource_def)
  have h1: "is_authenticated sample_framework get_request [] = (Inr (), ?t1)"
           "throttle_check sample_framework get_request ?t1 = (Inr (), ?t2)"
    by (simp_all add: is_authenticated_def throttle_check_def io_call_def sample_framework_def)
  have h2: "map_of ?kwargs ''nested_name'' = Some (VStr ''entries'')"
           "map_of (nested user_resource) ''entries'' = Some ?nf"
           "nf_to_class ?nf = 2" "api_name user_resource = ''v1''"
           "AList.delete ''nested_name'' ?kwargs = [(''pk'', VStr ''7'')]"
    by (simp_all add: user_resource_def)
  have h3: "build_bundle sample_framework VNone (Some get_request) ?t2 = (Inr basic_bundle, ?t3)"
    by (simp add: build_bundle_def io_call_def sample_framework_def basic_bundle_def)
  have h4: "parent_lookup sample_framework user_resource basic_bundle
              (AList.delete ''nested_name'' ?kwargs) ?t3 = (Inr (Inr (VObj 7)), ?t4)"
    by (simp only: h2 sample_parent_lookup)
  have h5: "nested_manager sample_framework ?nf (VObj 7) ?t4 = (Inr entries_manager, ?t5)"
    by (simp add: nested_manager_def io_try_def getattr_default_none_def io_call_def
        sample_framework_def entries_manager_def)
  have h6: "snd (nested_kwargs user_resource (VStr ''entries'') (VObj 7) entries_manager
                   [(''pk'', VStr ''7'')]) = nested_list_kwargs"
    by (simp add: nested_kwargs_def Let_def dict_set_def dict_contains_def has_all_def
        entries_manager_def nested_list_kwargs_def user_resource_def)
  have g0: "map_of nested_list_kwargs ''related_manager'' = Some (VManager [(''user'', VObj 7)])"
           "bundle_request basic_bundle = Some get_request"
           "dict_update (request_filters basic_bundle)
              (real_remove_api_resource_names nested_list_kwargs) = ?f"
    by (simp_all add: nested_list_kwargs_def entries_manager_def basic_bundle_def
        real_remove_nested_list_kwargs [unfolded nested_list_kwargs_def entries_manager_def]
        dict_update_def request_filters_def get_request_def dict_copy_def)
  have g1: "build_filters sample_framework ?f [] = (Inr ?f, [BuildFilters ?f])"
    by (simp add: build_filters_def io_call_def sample_framework_def)
  have g2: "apply_filters sample_framework (Some get_request) ?f [BuildFilters ?f]
              = (Inr [7, 8], [BuildFilters ?f, ApplyFilters (Some get_request) ?f])"
    by (simp add: apply_filters_def io_call_def sample_framework_def)
  have g3: "queryset_filter sample_framework [7, 8] [(''user'', VObj 7)]
              [BuildFilters ?f, ApplyFilters (Some get_request) ?f]
              = (Inr [8], [BuildFilters ?f, ApplyFilters (Some get_request) ?f,
                           QuerysetFilter [7, 8] [(''user'', VObj 7)]])"
    by (simp add: queryset_filter_def io_call_def sample_framework_def)
  have g4: "fst (authorized_read_list sample_framework [8] basic_bundle
                   [BuildFilters ?f, ApplyFilters (Some get_request) ?f,
                    QuerysetFilter [7, 8] [(''user'', VObj 7)]]) = Inr [8]"
    by (simp add: authorized_read_list_def io_call_def sample_framework_def)
  show ?thesis
    using h0 h1 h2 h3 h4 h5 h6 g0 g1 g2 g3 g4
      related_manager_filters_list_query
        [where self = user_resource and fw = sample_framework and req = get_request
           and t = "[]" and ?t1.0 = ?t1 and ?t2.0 = ?t2 and kwargs = ?kwargs and n = "''entries''"
           and nf = ?nf and bb = basic_bundle and ?t3.0 = ?t3 and ob = "VObj 7" and ?t4.0 = ?t4
           and manager = entries_manager and ?t5.0 = ?t5
           and kw = nested_list_kwargs and core_filters = "[(''user'', VObj 7)]"
           and b = basic_bundle and u = "[]" and applicable = ?f and ?u1.0 = "[BuildFilters ?f]"
           and base = "[7, 8]" and ?u2.0 = "[BuildFilters ?f, ApplyFilters (Some get_request) ?f]"
           and filtered = "[8]"
           and ?u3.0 = "[BuildFilters ?f, ApplyFilters (Some get_request) ?f,
                       QuerysetFilter [7, 8] [(''user'', VObj 7)]]"
           and child = entry_resource]
    by (simp add: entries_manager_def)
qed

text \<open>
  Where the URL keyword of the parent is itself called \<open>related_manager\<close>: the manager set
  under the key is deleted with it, and the list query runs without the core filters.
\<close>

lemma key_collision_drops_related_manager:
  "has_all entries_manager
   \<and> dispatch_nested single_user_framework odd_resource get_request
        [(''related_manager'', VStr ''7''), (''nested_name'', VStr ''entries'')] []
      = (Inr (HttpResponse 200 ''ok''),
         [IsAuthenticated get_request, ThrottleCheck get_request,
          BuildBundle VNone (Some get_request),
          GenerateCacheKey ''detail'' [],
          CacheGet ''v1:user:detail:pk=7'',
          GetObjectListFilter (Some get_request) [],
          AuthorizedReadDetail [7] (basic_bundle\<lparr>bundle_obj := Some 7\<rparr>),
          CacheSet ''v1:user:detail:pk=7'' (VObj 7),
          GetAttr (VObj 7) ''entry_set'',
          Dispatch 2 ''v1'' ''list'' get_request odd_list_kwargs])
   \<and> map_of odd_list_kwargs ''related_manager'' = None
   \<and> obj_get_list single_user_framework entry_resource basic_bundle odd_list_kwargs []
      = (Inr [7, 8],
         [BuildFilters [(''limit'', VStr ''20'')],
          ApplyFilters (Some get_request) [(''limit'', VStr ''20'')],
          AuthorizedReadList [7, 8] basic_bundle])"
proof -
  have st: "real_remove_api_resource_names [(''related_manager'', VStr ''7'')] = []"
           "real_remove_api_resource_names odd_list_kwargs = []"
    by (simp_all add: real_remove_filter stripped_keys_def odd_list_kwargs_def)
  have pr: "nested odd_resource
              = [(''entries'', \<lparr>nf_attribute = AttrName ''entry_set'', nf_to_class = 2\<rparr>)]"
           "api_name odd_resource = ''v1''" "object_class_name odd_resource = ''User''"
           "detail_uri_name odd_resource = ''related_manager''"
    by (simp_all add: odd_resource_def user_resource_def)
  have bb: "build_bundle single_user_framework VNone (Some get_request) t
              = (Inr basic_bundle, t @ [BuildBundle VNone (Some get_request)])" for t
    by (simp add: build_bundle_def io_call_def single_user_framework_def sample_framework_def
        basic_bundle_def)
  have pl: "parent_lookup single_user_framework odd_resource basic_bundle
              [(''related_manager'', VStr ''7'')] t
            = (Inr (Inr (VObj 7)),
               t @ [GenerateCacheKey ''detail'' [],
                    CacheGet ''v1:user:detail:pk=7'',
                    GetObjectListFilter (Some get_request) [],
                    AuthorizedReadDetail [7] (basic_bundle\<lparr>bundle_obj := Some 7\<rparr>),
                    CacheSet ''v1:user:detail:pk=7'' (VObj 7)])" for t
    by (simp add: parent_lookup_def cached_obj_get_def obj_get_def remove_api_resource_names_def
        dict_copy_def st io_defs framework_calls stringified_kwargs_def format_val_def
        single_user_framework_def sample_framework_def basic_bundle_def)
  have nm: "nested_manager single_user_framework
              \<lparr>nf_attribute = AttrName ''entry_set'', nf_to_class = 2\<rparr> (VObj 7) t
            = (Inr entries_manager, t @ [GetAttr (VObj 7) ''entry_set''])" for t
    by (simp add: nested_manager_def io_try_def getattr_default_none_def io_call_def
        single_user_framework_def sample_framework_def entries_manager_def)
  have nk: "nested_kwargs odd_resource (VStr ''entries'') (VObj 7) entries_manager
              [(''related_manager'', VStr ''7'')] = (''list'', odd_list_kwargs)"
    by (simp add: nested_kwargs_def Let_def dict_set_def dict_contains_def has_all_def
        entries_manager_def odd_list_kwargs_def pr)
  have di: "dispatch single_user_framework 2 ''v1'' ''list'' get_request odd_list_kwargs t
            = (Inr (HttpResponse 200 ''ok''),
               t @ [Dispatch 2 ''v1'' ''list'' get_request odd_list_kwargs])" for t
    by (simp add: dispatch_def io_call_def single_user_framework_def sample_framework_def)
  have au: "is_authenticated single_user_framework get_request []
              = (Inr (), [IsAuthenticated get_request])"
           "throttle_check single_user_framework get_request [IsAuthenticated get_request]
              = (Inr (), [IsAuthenticated get_request, ThrottleCheck get_request])"
    by (simp_all add: is_authenticated_def throttle_check_def io_call_def
        single_user_framework_def sample_framework_def)
  have d: "dispatch_nested single_user_framework odd_resource get_request
        [(''related_manager'', VStr ''7''), (''nested_name'', VStr ''entries'')] []
      = (Inr (HttpResponse 200 ''ok''),
         [IsAuthenticated get_request, ThrottleCheck get_request,
          BuildBundle VNone (Some get_request),
          GenerateCacheKey ''detail'' [],
          CacheGet ''v1:user:detail:pk=7'',
          GetObjectListFilter (Some get_request) [],
          AuthorizedReadDetail [7] (basic_bundle\<lparr>bundle_obj := Some 7\<rparr>),
          CacheSet ''v1:user:detail:pk=7'' (VObj 7),
          GetAttr (VObj 7) ''entry_set'',
          Dispatch 2 ''v1'' ''list'' get_request odd_list_kwargs])"
    by (simp add: dispatch_nested_def Let_def io_bind_def io_return_def au bb pl nm nk di pr)
  have rf: "request_filters basic_bundle = [(''limit'', VStr ''20'')]"
           "bundle_request basic_bundle = Some get_request"
    by (simp_all add: request_filters_def basic_bundle_def get_request_def dict_copy_def)
  have no: "map_of odd_list_kwargs ''related_manager'' = None"
    by (simp add: odd_list_kwargs_def)
  have l: "obj_get_list single_user_framework entry_resource basic_bundle odd_list_kwargs []
      = (Inr [7, 8],
         [BuildFilters [(''limit'', VStr ''20'')],
          ApplyFilters (Some get_request) [(''limit'', VStr ''20'')],
          AuthorizedReadList [7, 8] basic_bundle])"
    by (simp add: obj_get_list_def Let_def st rf no dict_update_def io_defs framework_calls
        single_user_framework_def sample_framework_def)
  have "has_all entries_manager" by (simp add: has_all_def entries_manager_def)
  with d no l show ?thesis by simp
qed

text \<open>
  C4. A nested dispatch whose relation is a callable that returns a queryset, at a sample
  deployment. The queryset has the attribute \<open>all\<close>, so the nested resource is dispatched
  as a list with the queryset under \<open>related_manager\<close>. \<open>obj_get_list\<close> with these keyword
  arguments runs the resource's own filters and then asks the queryset for
  \<^verbatim>\<open>core_filters\<close>, which it does not have: the list query ends in \<open>AttributeError\<close>, and
  no filter by core filters is made.
\<close>

theorem nested_queryset_relation_ends_in_attribute_error:
  "has_all (VQuerySet 4)
   \<and> snd (dispatch_nested queryset_framework queryset_resource get_request
             [(''pk'', VStr ''7''), (''nested_name'', VStr ''recent'')] [])
      = [IsAuthenticated get_request, ThrottleCheck get_request,
         BuildBundle VNone (Some get_request),
         GenerateCacheKey ''detail'' [(''pk'', VStr ''7'')],
         CacheGet ''v1:user:detail:pk=7'',
         GetObjectListFilter (Some get_request) [(''pk'', VStr ''7'')],
         AuthorizedReadDetail [7] (basic_bundle\<lparr>bundle_obj := Some 7\<rparr>),
         CacheSet ''v1:user:detail:pk=7'' (VObj 7),
         CallAttribute 3 (VObj 7),
         Dispatch 2 ''v1'' ''list'' get_request queryset_list_kwargs]
   \<and> map_of queryset_list_kwargs ''related_manager'' = Some (VQuerySet 4)
   \<and> obj_get_list queryset_framework entry_resource basic_bundle queryset_list_kwargs []
      = (Inl AttributeError,
         [BuildFilters [(''limit'', VStr ''20'')],
          ApplyFilters (Some get_request) [(''limit'', VStr ''20'')]])"
proof -
  have st: "real_remove_api_resource_names queryset_list_kwargs = []"
    by (simp add: real_remove_filter stripped_keys_def queryset_list_kwargs_def)
  have pr: "nested queryset_resource
              = [(''recent'', \<lparr>nf_attribute = AttrCallable 3, nf_to_class = 2\<rparr>)]"
           "api_name queryset_resource = ''v1''" "object_class_name queryset_resource = ''User''"
           "detail_uri_name queryset_resource = ''pk''"
    by (simp_all add: queryset_resource_def user_resource_def)
  have bb: "build_bundle queryset_framework VNone (Some get_request) t
              = (Inr basic_bundle, t @ [BuildBundle VNone (Some get_request)])" for t
    by (simp add: build_bundle_def io_call_def queryset_framework_def sample_framework_def
        basic_bundle_def)
  have pl: "parent_lookup queryset_framework queryset_resource basic_bundle
              [(''pk'', VStr ''7'')] t
            = (Inr (Inr (VObj 7)),
               t @ [GenerateCacheKey ''detail'' [(''pk'', VStr ''7'')],
                    CacheGet ''v1:user:detail:pk=7'',
                    GetObjectListFilter (Some get_request) [(''pk'', VStr ''7'')],
                    AuthorizedReadDetail [7] (basic_bundle\<lparr>bundle_obj := Some 7\<rparr>),
                    CacheSet ''v1:user:detail:pk=7'' (VObj 7)])" for t
    by (simp add: parent_lookup_def cached_obj_get_def obj_get_def remove_api_resource_names_def
        dict_copy_def real_remove_pk io_defs framework_calls stringified_kwargs_def
        format_val_def queryset_framework_def sample_framework_def basic_bundle_def)
  have nm: "nested_manager queryset_framework
              \<lparr>nf_attribute = AttrCallable 3, nf_to_class = 2\<rparr> (VObj 7) t
            = (Inr (VQuerySet 4), t @ [CallAttribute 3 (VObj 7)])" for t
    by (simp add: nested_manager_def io_try_def call_attribute_def io_call_def
        queryset_framework_def)
  have nk: "nested_kwargs queryset_resource (VStr ''recent'') (VObj 7) (VQuerySet 4)
              [(''pk'', VStr ''7'')] = (''list'', queryset_list_kwargs)"
    by (simp add: nested_kwargs_def Let_def dict_set_def dict_contains_def has_all_def
        queryset_list_kwargs_def pr)
  have di: "dispatch queryset_framework 2 ''v1'' ''list'' get_request queryset_list_kwargs t
            = (Inr (HttpResponse 200 ''ok''),
               t @ [Dispatch 2 ''v1'' ''list'' get_request queryset_list_kwargs])" for t
    by (simp add: dispatch_def io_call_def queryset_framework_def sample_framework_def)
  have au: "is_authenticated queryset_framework get_request []
              = (Inr (), [IsAuthenticated get_request])"
           "throttle_check queryset_framework get_request [IsAuthenticated get_request]
              = (Inr (), [IsAuthenticated get_request, ThrottleCheck get_request])"
    by (simp_all add: is_authenticated_def throttle_check_def io_call_def
        queryset_framework_def sample_framework_def)
  have d: "snd (dispatch_nested queryset_framework queryset_resource get_request
             [(''pk'', VStr ''7''), (''nested_name'', VStr ''recent'')] [])
      = [IsAuthenticated get_request, ThrottleCheck get_request,
         BuildBundle VNone (Some get_request),
         GenerateCacheKey ''detail'' [(''pk'', VStr ''7'')],
         CacheGet ''v1:user:detail:pk=7'',
         GetObjectListFilter (Some get_request) [(''pk'', VStr ''7'')],
         AuthorizedReadDetail [7] (basic_bundle\<lparr>bundle_obj := Some 7\<rparr>),
         CacheSet ''v1:user:detail:pk=7'' (VObj 7),
         CallAttribute 3 (VObj 7),
         Dispatch 2 ''v1'' ''list'' get_request queryset_list_kwargs]"
    by (simp add: dispatch_nested_def Let_def io_bind_def io_return_def au bb pl nm nk di pr)
  have rf: "request_filters basic_bundle = [(''limit'', VStr ''20'')]"
           "bundle_request basic_bundle = Some get_request"
    by (simp_all add: request_filters_def basic_bundle_def get_request_def dict_copy_def)
  have rm: "map_of queryset_list_kwargs ''related_manager'' = Some (VQuerySet 4)"
    by (simp add: queryset_list_kwargs_def)
  have l: "obj_get_list queryset_framework entry_resource basic_bundle queryset_list_kwargs []
      = (Inl AttributeError,
         [BuildFilters [(''limit'', VStr ''20'')],
          ApplyFilters (Some get_request) [(''limit'', VStr ''20'')]])"
    by (simp add: obj_get_list_def Let_def st rf rm dict_update_def io_defs framework_calls
        queryset_framework_def sample_framework_def)
  have "has_all (VQuerySet 4)" by (simp add: has_all_def)
  with d rm l show ?thesis by simp
qed

subsection \<open>The detail lookup\<close>

lemma obj_get_cases:
  assumes "get_object_list_filter fw (bundle_request b) (real_remove_api_resource_names kwargs) t
             = (Inr objs, t1)"
  shows "stringified_kwargs fw kwargs = Inl e \<Longrightarrow>
           obj_get fw self b kwargs t
             = (Inl (if e = ValueError then NotFound mismatched_type else e), t1)"
    and "stringified_kwargs fw kwargs = Inr s \<Longrightarrow> objs = [] \<Longrightarrow>
           obj_get fw self b kwargs t = (Inl (DoesNotExist (does_not_exist_message self s)), t1)"
    and "stringified_kwargs fw kwargs = Inr s \<Longrightarrow> length objs > 1 \<Longrightarrow>
           obj_get fw self b kwargs t
             = (Inl (MultipleObjectsReturned (multiple_objects_message self s)), t1)"
    and "stringified_kwargs fw kwargs = Inr s \<Longrightarrow> objs = [ob] \<Longrightarrow>
         authorized_read_detail fw [ob] (b\<lparr>bundle_obj := Some ob\<rparr>) t1 = (Inr (), t2) \<Longrightarrow>
           obj_get fw self b kwargs t = (Inr ob, t2)"
  using assms by (auto simp: obj_get_def io_defs)

lemma get_detail_on_miss:
  assumes "build_bundle fw VNone (Some req) u = (Inr bb, u0)"
    and "map_of kwargs ''child_object'' = None"
    and "generate_cache_key fw ''detail'' (real_remove_api_resource_names kwargs) u0 = (Inr key, u1)"
    and "cache_get fw key u1 = (Inr VNone, u2)"
  shows "obj_get fw self bb kwargs u2 = (Inl (DoesNotExist msg), u3) \<Longrightarrow>
           get_detail fw self req kwargs u = (Inr HttpNotFound, u3)"
    and "obj_get fw self bb kwargs u2 = (Inl (MultipleObjectsReturned msg), u3) \<Longrightarrow>
           get_detail fw self req kwargs u
             = (Inr (HttpMultipleChoices ''More than one resource is found at this URI.''), u3)"
    and "obj_get fw self bb kwargs u2 = (Inr ob, u3) \<Longrightarrow>
         cache_set fw key (VObj ob) u3 = (Inr (), u4) \<Longrightarrow>
           get_detail fw self req kwargs u = serialize_detail fw req (VObj ob) u4"
  using assms
  by (simp_all add: get_detail_def detail_lookup_def cached_obj_get_def
      remove_api_resource_names_def dict_copy_def io_defs)

text \<open>
  C2. A detail lookup, by the number of objects the filter call returns for the stripped
  keyword arguments, once the keyword arguments have been printed for the message (which
  \<open>obj_get\<close> does before it looks at the number; a value that cannot be printed ends the
  lookup in what the printing raised, a \<open>ValueError\<close> as \<open>NotFound\<close>). None: \<open>obj_get\<close>
  raises \<open>DoesNotExist\<close>. More than one: it raises \<open>MultipleObjectsReturned\<close>. Exactly one,
  and the read authorization raises nothing: \<open>obj_get\<close> returns that object. On the path of
  \<open>get_detail\<close> that goes through \<open>obj_get\<close> (no \<open>child_object\<close> among the keyword
  arguments, a cache miss) the first becomes the response \<open>HttpNotFound\<close>, the second
  \<open>HttpMultipleChoices\<close>, and the object found is stored in the cache and serialized into
  the response of \<open>create_response\<close>.
\<close>

theorem detail_lookup_by_match_count:
  "(get_object_list_filter fw (bundle_request b) (real_remove_api_resource_names kwargs) t
      = (Inr objs, t1)
      \<and> stringified_kwargs fw kwargs = Inl e \<longrightarrow>
      obj_get fw self b kwargs t
        = (Inl (if e = ValueError then NotFound mismatched_type else e), t1))
   \<and> (get_object_list_filter fw (bundle_request b) (real_remove_api_resource_names kwargs) t
      = (Inr objs, t1)
      \<and> stringified_kwargs fw kwargs = Inr s \<longrightarrow>
      (objs = [] \<longrightarrow>
         obj_get fw self b kwargs t = (Inl (DoesNotExist (does_not_exist_message self s)), t1))
    \<and> (length objs > 1 \<longrightarrow>
         obj_get fw self b kwargs t
           = (Inl (MultipleObjectsReturned (multiple_objects_message self s)), t1))
    \<and> (objs = [ob]
         \<and> authorized_read_detail fw [ob] (b\<lparr>bundle_obj := Some ob\<rparr>) t1 = (Inr (), t2) \<longrightarrow>
         obj_get fw self b kwargs t = (Inr ob, t2)))
   \<and> (build_bundle fw VNone (Some req) u = (Inr bb, u0)
      \<and> map_of kwargs ''child_object'' = None
      \<and> generate_cache_key fw ''detail'' (real_remove_api_resource_names kwargs) u0
          = (Inr key, u1)
      \<and> cache_get fw key u1 = (Inr VNone, u2) \<longrightarrow>
      (obj_get fw self bb kwargs u2 = (Inl (DoesNotExist msg), u3) \<longrightarrow>
         get_detail fw self req kwargs u = (Inr HttpNotFound, u3))
    \<and> (obj_get fw self bb kwargs u2 = (Inl (MultipleObjectsReturned msg), u3) \<longrightarrow>
         get_detail fw self req kwargs u
           = (Inr (HttpMultipleChoices ''More than one resource is found at this URI.''), u3))
    \<and> (obj_get fw self bb kwargs u2 = (Inr found, u3)
         \<and> cache_set fw key (VObj found) u3 = (Inr (), u4) \<longrightarrow>
         get_detail fw self req kwargs u = serialize_detail fw req (VObj found) u4))"
  apply (intro conjI impI)
  subgoal by (elim conjE) (rule obj_get_cases(1), assumption+)
  subgoal by (elim conjE) (rule obj_get_cases(2), assumption+)
  subgoal by (elim conjE) (rule obj_get_cases(3), assumption+)
  subgoal by (elim conjE) (rule obj_get_cases(4), assumption+)
  subgoal by (elim conjE) (rule get_detail_on_miss(1), assumption+)
  subgoal by (elim conjE) (rule get_detail_on_miss(2), assumption+)
  subgoal by (elim conjE) (rule get_detail_on_miss(3), assumption+)
  done

lemma sample_get_detail:
  "get_detail sample_framework user_resource get_request [(''pk'', VStr ''7'')] []
   = (Inr (HttpResponse 200 ''ok''),
      [BuildBundle VNone (Some get_request),
       GenerateCacheKey ''detail'' [(''pk'', VStr ''7'')],
       CacheGet ''v1:user:detail:pk=7'',
       GetObjectListFilter (Some get_request) [(''pk'', VStr ''7'')],
       AuthorizedReadDetail [7] (basic_bundle\<lparr>bundle_obj := Some 7\<rparr>),
       CacheSet ''v1:user:detail:pk=7'' (VObj 7),
       BuildBundle (VObj 7) (Some get_request),
       FullDehydrate (basic_bundle\<lparr>bundle_obj := Some 7\<rparr>),
       AlterDetailDataToSerialize get_request (basic_bundle\<lparr>bundle_obj := Some 7\<rparr>),
       CreateResponse get_request (basic_bundle\<lparr>bundle_obj := Some 7\<rparr>)])"
  by (simp add: get_detail_def detail_lookup_def cached_obj_get_def obj_get_def
      serialize_detail_def remove_api_resource_names_def dict_copy_def real_remove_pk io_defs
      framework_calls stringified_kwargs_def format_val_def sample_framework_def
      basic_bundle_def)

lemma sample_stringified:
  "stringified_kwargs sample_framework [(''pk'', VStr v)] = Inr (''pk='' @ v)"
  "stringified_kwargs sample_framework [] = Inr []"
  "stringified_kwargs unprintable_framework [(''pk'', VStr ''7''), (''parent_object'', VObj 3)]
     = Inl (OtherError 1)"
  by (simp_all add: stringified_kwargs_def format_val_def unprintable_framework_def)

theorem detail_lookup_by_match_count_witness:
  "obj_get sample_framework user_resource basic_bundle [(''pk'', VStr ''7'')] []
     = (Inr 7, [GetObjectListFilter (Some get_request) [(''pk'', VStr ''7'')],
                AuthorizedReadDetail [7] (basic_bundle\<lparr>bundle_obj := Some 7\<rparr>)])
   \<and> obj_get sample_framework user_resource basic_bundle [(''pk'', VStr ''9'')] []
     = (Inl (DoesNotExist (does_not_exist_message user_resource ''pk=9'')),
        [GetObjectListFilter (Some get_request) [(''pk'', VStr ''9'')]])
   \<and> obj_get sample_framework user_resource basic_bundle [] []
     = (Inl (MultipleObjectsReturned (multiple_objects_message user_resource [])),
        [GetObjectListFilter (Some get_request) []])
   \<and> obj_get unprintable_framework user_resource basic_bundle
         [(''pk'', VStr ''7''), (''parent_object'', VObj 3)] []
     = (Inl (OtherError 1), [GetObjectListFilter (Some get_request) [(''pk'', VStr ''7'')]])
   \<and> get_detail sample_framework user_resource get_request [(''pk'', VStr ''7'')] []
     = serialize_detail sample_framework get_request (VObj 7)
         [BuildBundle VNone (Some get_request),
          GenerateCacheKey ''detail'' [(''pk'', VStr ''7'')],
          CacheGet ''v1:user:detail:pk=7'',
          GetObjectListFilter (Some get_request) [(''pk'', VStr ''7'')],
          AuthorizedReadDetail [7] (basic_bundle\<lparr>bundle_obj := Some 7\<rparr>),
          CacheSet ''v1:user:detail:pk=7'' (VObj 7)]
   \<and> fst (get_detail sample_framework user_resource get_request [(''pk'', VStr ''7'')] [])
     = Inr (HttpResponse 200 ''ok'')"
proof -
  let ?g = "\<lambda>kw. [GetObjectListFilter (Some get_request) kw]"
  let ?u0 = "[BuildBundle VNone (Some get_request)]"
  let ?u1 = "?u0 @ [GenerateCacheKey ''detail'' [(''pk'', VStr ''7'')]]"
  let ?u2 = "?u1 @ [CacheGet ''v1:user:detail:pk=7'']"
  let ?u3 = "?u2 @ [GetObjectListFilter (Some get_request) [(''pk'', VStr ''7'')],
                    AuthorizedReadDetail [7] (basic_bundle\<lparr>bundle_obj := Some 7\<rparr>)]"
  let ?u4 = "?u3 @ [CacheSet ''v1:user:detail:pk=7'' (VObj 7)]"
  have s: "real_remove_api_resource_names [] = []"
          "real_remove_api_resource_names [(''pk'', VStr ''7''), (''parent_object'', VObj 3)]
             = [(''pk'', VStr ''7'')]"
    by (simp_all add: real_remove_filter stripped_keys_def)
  have br: "bundle_request basic_bundle = Some get_request"
    by (simp add: basic_bundle_def)
  have f: "get_object_list_filter sample_framework (Some get_request) [(''pk'', VStr ''7'')] t
             = (Inr [7], t @ ?g [(''pk'', VStr ''7'')])"
          "get_object_list_filter sample_framework (Some get_request) [(''pk'', VStr ''9'')] t
             = (Inr [], t @ ?g [(''pk'', VStr ''9'')])"
          "get_object_list_filter sample_framework (Some get_request) [] t
             = (Inr [7, 8], t @ ?g [])"
          "get_object_list_filter unprintable_framework (Some get_request) [(''pk'', VStr ''7'')] t
             = (Inr [7], t @ ?g [(''pk'', VStr ''7'')])" for t
    by (simp_all add: get_object_list_filter_def io_call_def sample_framework_def
        unprintable_framework_def)
  have a: "authorized_read_detail sample_framework [7] (basic_bundle\<lparr>bundle_obj := Some 7\<rparr>)
             (t @ ?g [(''pk'', VStr ''7'')])
           = (Inr (), t @ ?g [(''pk'', VStr ''7'')]
                        @ [AuthorizedReadDetail [7] (basic_bundle\<lparr>bundle_obj := Some 7\<rparr>)])" for t
    by (simp add: authorized_read_detail_def io_call_def sample_framework_def)
  have o7: "obj_get sample_framework user_resource basic_bundle [(''pk'', VStr ''7'')] t
            = (Inr 7, t @ [GetObjectListFilter (Some get_request) [(''pk'', VStr ''7'')],
                           AuthorizedReadDetail [7] (basic_bundle\<lparr>bundle_obj := Some 7\<rparr>)])" for t
    using detail_lookup_by_match_count
        [where fw = sample_framework and b = basic_bundle and kwargs = "[(''pk'', VStr ''7'')]"
           and t = t and objs = "[7]" and ?t1.0 = "t @ ?g [(''pk'', VStr ''7'')]"
           and s = "''pk=7''" and self = user_resource and ob = 7
           and ?t2.0 = "t @ ?g [(''pk'', VStr ''7'')]
                        @ [AuthorizedReadDetail [7] (basic_bundle\<lparr>bundle_obj := Some 7\<rparr>)]"]
      f(1) [of t] a [of t] sample_stringified(1) [of "''7''"]
    by (simp add: real_remove_pk br)
  have o9: "obj_get sample_framework user_resource basic_bundle [(''pk'', VStr ''9'')] []
     = (Inl (DoesNotExist (does_not_exist_message user_resource ''pk=9'')),
        ?g [(''pk'', VStr ''9'')])"
    using detail_lookup_by_match_count
        [where fw = sample_framework and b = basic_bundle and kwargs = "[(''pk'', VStr ''9'')]"
           and t = "[]" and objs = "[]" and ?t1.0 = "?g [(''pk'', VStr ''9'')]"
           and s = "''pk=9''" and self = user_resource]
      f(2) [of "[]"] sample_stringified(1) [of "''9''"]
    by (simp add: real_remove_pk br)
  have o0: "obj_get sample_framework user_resource basic_bundle [] []
     = (Inl (MultipleObjectsReturned (multiple_objects_message user_resource [])), ?g [])"
    using detail_lookup_by_match_count
        [where fw = sample_framework and b = basic_bundle and kwargs = "[]"
           and t = "[]" and objs = "[7, 8]" and ?t1.0 = "?g []" and s = "[]"
           and self = user_resource]
      f(3) [of "[]"] sample_stringified(2)
    by (simp add: s br)
  have ou: "obj_get unprintable_framework user_resource basic_bundle
         [(''pk'', VStr ''7''), (''parent_object'', VObj 3)] []
     = (Inl (OtherError 1), ?g [(''pk'', VStr ''7'')])"
    using detail_lookup_by_match_count
        [where fw = unprintable_framework and b = basic_bundle
           and kwargs = "[(''pk'', VStr ''7''), (''parent_object'', VObj 3)]"
           and t = "[]" and objs = "[7]" and ?t1.0 = "?g [(''pk'', VStr ''7'')]"
           and e = "OtherError 1" and self = user_resource]
      f(4) [of "[]"] sample_stringified(3)
    by (simp add: s br)
  have b0: "build_bundle sample_framework VNone (Some get_request) [] = (Inr basic_bundle, ?u0)"
    by (simp add: build_bundle_def io_call_def sample_framework_def basic_bundle_def)
  have k: "generate_cache_key sample_framework ''detail''
             (real_remove_api_resource_names [(''pk'', VStr ''7'')]) ?u0
           = (Inr ''v1:user:detail:pk=7'', ?u1)"
    by (simp add: generate_cache_key_def io_call_def sample_framework_def real_remove_pk)
  have cg: "cache_get sample_framework ''v1:user:detail:pk=7'' ?u1 = (Inr VNone, ?u2)"
    by (simp add: cache_get_def io_call_def sample_framework_def)
  have cs: "cache_set sample_framework ''v1:user:detail:pk=7'' (VObj 7) ?u3 = (Inr (), ?u4)"
    by (simp add: cache_set_def io_call_def sample_framework_def)
  have gd: "get_detail sample_framework user_resource get_request [(''pk'', VStr ''7'')] []
     = serialize_detail sample_framework get_request (VObj 7) ?u4"
    using detail_lookup_by_match_count
        [where fw = sample_framework and req = get_request and u = "[]" and bb = basic_bundle
           and ?u0.0 = ?u0 and kwargs = "[(''pk'', VStr ''7'')]"
           and key = "''v1:user:detail:pk=7''" and ?u1.0 = ?u1 and ?u2.0 = ?u2
           and self = user_resource and found = 7 and ?u3.0 = ?u3 and ?u4.0 = ?u4]
      b0 k cg cs o7 [of ?u2]
    by simp
  have o7': "obj_get sample_framework user_resource basic_bundle [(''pk'', VStr ''7'')] []
     = (Inr 7, [GetObjectListFilter (Some get_request) [(''pk'', VStr ''7'')],
                AuthorizedReadDetail [7] (basic_bundle\<lparr>bundle_obj := Some 7\<rparr>)])"
    using o7 [of "[]"] by simp
  have fs: "fst (get_detail sample_framework user_resource get_request [(''pk'', VStr ''7'')] [])
     = Inr (HttpResponse 200 ''ok'')"
    by (simp add: sample_get_detail)
  from o7' o9 o0 ou gd fs show ?thesis by simp
qed

theorem detail_lookup_unauthorized_counterexample:
  "get_object_list_filter deny_framework (bundle_request basic_bundle)
       (real_remove_api_resource_names [(''pk'', VStr ''7'')]) []
     = (Inr [7], [GetObjectListFilter (Some get_request) [(''pk'', VStr ''7'')]])
   \<and> fst (obj_get deny_framework user_resource basic_bundle [(''pk'', VStr ''7'')] [])
     = Inl (ImmediateHttpResponse (HttpResponse 401 []))
   \<and> fst (get_detail deny_framework user_resource get_request [(''pk'', VStr ''7'')] [])
     = Inl (ImmediateHttpResponse (HttpResponse 401 []))"
  by (simp add: get_detail_def detail_lookup_def cached_obj_get_def obj_get_def
      remove_api_resource_names_def dict_copy_def real_remove_pk io_defs
      framework_calls stringified_kwargs_def format_val_def deny_framework_def
      sample_framework_def basic_bundle_def)

end
